theory Spec2Isabelle
  imports Complex_Main
begin

section \<open>Shared vocabulary of the server\<close>

text \<open>
  Object ids are the hexadecimal strings of MongoDB (\<^verbatim>\<open>req.user.id\<close>,
  \<^verbatim>\<open>doc.user.toString()\<close>, \<^verbatim>\<open>req.params.id\<close>); dates are milliseconds since the
  epoch, as a JavaScript \<^verbatim>\<open>Date\<close> holds them.
\<close>

type_synonym object_id = string
type_synonym date = int

text \<open>
  \<^verbatim>\<open>req.user\<close>, as the \<^verbatim>\<open>protect\<close> middleware leaves it: the handlers read its id and its
  role only.
\<close>

record auth_user =
  user_id :: object_id
  user_role :: string

text \<open>
  What a handler hands to \<^verbatim>\<open>next\<close>: an \<^verbatim>\<open>ErrorResponse(message, statusCode)\<close> built by the
  handler itself, or an error thrown on the way (a validation error of Mongoose, a
  \<^verbatim>\<open>TypeError\<close> of the runtime) and forwarded by \<^verbatim>\<open>asyncHandler\<close>'s \<^verbatim>\<open>catch(next)\<close>.
\<close>

datatype error =
    ErrorResponse (message: string) (statusCode: nat)
  | ValidationError string
  | TypeError string

text \<open>\<^verbatim>\<open>res.status(code).json({ success: true, data: d })\<close>\<close>

record 'a reply =
  status :: nat
  success :: bool
  payload :: 'a

definition json :: "nat \<Rightarrow> 'a \<Rightarrow> 'a reply" where
  "json code d = \<lparr>status = code, success = True, payload = d\<rparr>"

text \<open>
  The body of a create request, as the JSON parser hands it over: an object or an array of
  objects. What a create stores and answers with: one document, or the array of documents.
\<close>

datatype 'b json_body = JsonObject 'b | JsonArray "'b list"

datatype 'd created = One 'd | Many "'d list"

text \<open>The error a handler forwarded carries the given status code.\<close>

fun denied_with :: "nat \<Rightarrow> error + 'a \<Rightarrow> bool" where
  "denied_with code (Inl (ErrorResponse msg c)) = (c = code)"
| "denied_with code (Inl (ValidationError msg)) = False"
| "denied_with code (Inl (TypeError msg)) = False"
| "denied_with code (Inr r) = False"

subsection \<open>Strings and dates of the JavaScript runtime\<close>

text \<open>
  A character stands for a UTF-16 code unit below 256, so a string is a JavaScript string
  over Latin-1; code units from 256 on are not in the type. The white space that
  \<^verbatim>\<open>String.prototype.trim\<close> strips is, in this range, tab to carriage return, the space and
  the no-break space; \<^verbatim>\<open>toLowerCase\<close> maps A to Z and the capital letters from U+00C0 to
  U+00DE (the multiplication sign U+00D7 apart) to the letter 32 positions on.
\<close>

definition is_space :: "char \<Rightarrow> bool" where
  "is_space c = (c = CHR '' '' \<or> c = CHR 0x09 \<or> c = CHR 0x0A \<or> c = CHR 0x0B \<or> c = CHR 0x0C
     \<or> c = CHR 0x0D \<or> c = CHR 0xA0)"

definition trim :: "string \<Rightarrow> string" where
  "trim s = rev (dropWhile is_space (rev (dropWhile is_space s)))"

definition lower_char :: "char \<Rightarrow> char" where
  "lower_char c =
     (let n = (of_char c :: nat) in
      if (65 \<le> n \<and> n \<le> 90) \<or> (192 \<le> n \<and> n \<le> 222 \<and> n \<noteq> 215) then char_of (n + 32) else c)"

definition toLowerCase :: "string \<Rightarrow> string" where
  "toLowerCase s = map lower_char s"

fun str_includes :: "string \<Rightarrow> string \<Rightarrow> bool" where
  "str_includes [] w = (w = [])"
| "str_includes (c # cs) w = (take (length w) (c # cs) = w \<or> str_includes cs w)"

definition digit_char :: "nat \<Rightarrow> char" where
  "digit_char n = char_of (48 + n)"

function string_of_nat :: "nat \<Rightarrow> string" where
  "string_of_nat n =
     (if n < 10 then [digit_char n] else string_of_nat (n div 10) @ [digit_char (n mod 10)])"
  by pat_completeness auto
termination
  by (relation "measure (\<lambda>n. n)") auto

definition string_of_int :: "int \<Rightarrow> string" where
  "string_of_int i = (if i < 0 then ''-'' @ string_of_nat (nat (- i)) else string_of_nat (nat i))"

definition ms_per_day :: int where
  "ms_per_day = 86400000"

text \<open>The day of a date, counted from the epoch (the server's clock is taken as UTC).\<close>

definition day_of :: "date \<Rightarrow> int" where
  "day_of t = t div ms_per_day"

text \<open>\<^verbatim>\<open>Date.getDay()\<close>: 0 is Sunday; 1 January 1970 was a Thursday.\<close>

definition getDay :: "date \<Rightarrow> nat" where
  "getDay t = nat ((day_of t + 4) mod 7)"

definition getHours :: "date \<Rightarrow> nat" where
  "getHours t = nat ((t div 3600000) mod 24)"

text \<open>\<^verbatim>\<open>d.setDate(d.getDate() - n)\<close>: the same time of day, \<open>n\<close> days earlier.\<close>

definition days_before :: "int \<Rightarrow> date \<Rightarrow> date" where
  "days_before n t = t - n * ms_per_day"

subsection \<open>Creating several documents\<close>

text \<open>
  \<^verbatim>\<open>Model.create\<close> on an array: every element is built and saved on its own, the \<open>k\<close>-th
  with the \<open>k\<close>-th fresh id of the driver; the elements that pass validation are stored, and
  if some do not, the call throws the first of their errors.
\<close>

fun create_many ::
  "('b \<Rightarrow> object_id \<Rightarrow> date \<Rightarrow> 'd list \<Rightarrow> (error + 'd) \<times> 'd list) \<Rightarrow> (nat \<Rightarrow> object_id) \<Rightarrow> nat
     \<Rightarrow> date \<Rightarrow> 'b list \<Rightarrow> 'd list \<Rightarrow> error option \<times> 'd list \<times> 'd list" where
  "create_many save fresh k now [] db = (None, [], db)"
| "create_many save fresh k now (b # bs) db =
     (case save b (fresh k) now db of
        (Inl e, db1) \<Rightarrow>
          (case create_many save fresh (k + 1) now bs db1 of
             (later, docs, db2) \<Rightarrow> (Some e, docs, db2))
      | (Inr d, db1) \<Rightarrow>
          (case create_many save fresh (k + 1) now bs db1 of
             (later, docs, db2) \<Rightarrow> (later, d # docs, db2)))"

section \<open>Mood entries\<close>

text \<open>
  The fields of \<^verbatim>\<open>moodSchema\<close> that the specification's data model names. Intensity is
  an integer, as the route's \<^verbatim>\<open>isInt\<close> check describes it.
\<close>

record mood_doc =
  m_id :: object_id
  m_user :: object_id
  m_mood :: string
  m_intensity :: int
  m_note :: "string option"
  m_activities :: "string list"
  m_tags :: "string list"
  m_createdAt :: date

text \<open>\<^verbatim>\<open>req.body\<close> of the mood routes: every field may be absent.\<close>

record mood_body =
  mb_user :: "object_id option"
  mb_mood :: "string option"
  mb_intensity :: "int option"
  mb_note :: "string option"
  mb_activities :: "string list option"
  mb_tags :: "string list option"

definition mood_enum :: "string list" where
  "mood_enum = [''happy'', ''sad'', ''anxious'', ''angry'', ''calm'', ''excited'',
     ''grateful'', ''tired'', ''neutral'']"

definition mood_activity_enum :: "string list" where
  "mood_activity_enum = [''work'', ''exercise'', ''social'', ''family'', ''hobby'', ''rest'',
     ''other'']"

text \<open>The virtual \<^verbatim>\<open>timeOfDay\<close>.\<close>

definition timeOfDay :: "date \<Rightarrow> string" where
  "timeOfDay t =
     (let hour = getHours t in
      if hour < 12 then ''morning''
      else if hour < 17 then ''afternoon''
      else if hour < 21 then ''evening''
      else ''night'')"

definition days :: "string list" where
  "days = [''sunday'', ''monday'', ''tuesday'', ''wednesday'', ''thursday'', ''friday'',
     ''saturday'']"

text \<open>\<^verbatim>\<open>moodSchema.pre('save')\<close>: the default note and the default tags.\<close>

definition mood_pre_save :: "mood_doc \<Rightarrow> mood_doc" where
  "mood_pre_save d =
     (let d1 = (if m_note d = None \<or> m_note d = Some []
                then d\<lparr>m_note := Some (''Feeling '' @ m_mood d @ '' with intensity ''
                        @ string_of_int (m_intensity d) @ ''/10'')\<rparr>
                else d)
      in if m_tags d1 = []
         then d1\<lparr>m_tags := [days ! getDay (m_createdAt d1), timeOfDay (m_createdAt d1)]\<rparr>
         else d1)"

text \<open>
  Saving one new mood document: it is built from the body (strings trimmed by the schema),
  validated against the schema, passed through the pre-save hook and inserted. The driver's
  fresh id and the clock are arguments.
\<close>

definition mood_validate_create :: "mood_body \<Rightarrow> string option" where
  "mood_validate_create b =
     (if mb_user b = None then Some ''User ID is required''
      else if mb_mood b = None then Some ''Mood is required''
      else if the (mb_mood b) \<notin> set mood_enum then Some ''mood: not a valid enum value''
      else if mb_intensity b = None then Some ''Intensity is required''
      else if the (mb_intensity b) < 1 then Some ''intensity: below minimum''
      else if the (mb_intensity b) > 10 then Some ''intensity: above maximum''
      else if (case mb_note b of None \<Rightarrow> False | Some n \<Rightarrow> length (trim n) > 500)
        then Some ''note: longer than maximum''
      else if (case mb_activities b of None \<Rightarrow> False
               | Some as \<Rightarrow> \<not> list_all (\<lambda>a. a \<in> set mood_activity_enum) as)
        then Some ''activities: not a valid enum value''
      else None)"

definition Mood_save ::
  "mood_body \<Rightarrow> object_id \<Rightarrow> date \<Rightarrow> mood_doc list \<Rightarrow> (error + mood_doc) \<times> mood_doc list" where
  "Mood_save b oid now db =
     (case mood_validate_create b of
        Some msg \<Rightarrow> (Inl (ValidationError msg), db)
      | None \<Rightarrow>
          let d = mood_pre_save
                    \<lparr>m_id = oid, m_user = the (mb_user b), m_mood = the (mb_mood b),
                     m_intensity = the (mb_intensity b),
                     m_note = map_option trim (mb_note b),
                     m_activities = (case mb_activities b of None \<Rightarrow> [] | Some as \<Rightarrow> as),
                     m_tags = (case mb_tags b of None \<Rightarrow> [] | Some ts \<Rightarrow> map trim ts),
                     m_createdAt = now\<rparr>
          in (Inr d, db @ [d]))"

text \<open>\<^verbatim>\<open>Mood.create(body)\<close>: one document for an object, one for each element of an array.\<close>

definition Mood_create ::
  "mood_body json_body \<Rightarrow> (nat \<Rightarrow> object_id) \<Rightarrow> date \<Rightarrow> mood_doc list
     \<Rightarrow> (error + mood_doc created) \<times> mood_doc list" where
  "Mood_create body fresh now db =
     (case body of
        JsonObject b \<Rightarrow>
          (case Mood_save b (fresh 0) now db of
             (Inl e, db') \<Rightarrow> (Inl e, db')
           | (Inr d, db') \<Rightarrow> (Inr (One d), db'))
      | JsonArray bs \<Rightarrow>
          (case create_many Mood_save fresh 0 now bs db of
             (Some e, docs, db') \<Rightarrow> (Inl e, db')
           | (None, docs, db') \<Rightarrow> (Inr (Many docs), db')))"

text \<open>
  \<^verbatim>\<open>Mood.findById(id)\<close>. An \<open>object_id\<close> is a well-formed id: a \<^verbatim>\<open>req.params.id\<close> that
  cannot be cast to an ObjectId makes \<^verbatim>\<open>findById\<close> throw a \<^verbatim>\<open>CastError\<close> before the handler
  checks anything, and is not among the inputs of the model.
\<close>

definition Mood_findById :: "object_id \<Rightarrow> mood_doc list \<Rightarrow> mood_doc option" where
  "Mood_findById i db = find (\<lambda>d. m_id d = i) db"

text \<open>
  \<^verbatim>\<open>Mood.findByIdAndUpdate(id, body, { new: true, runValidators: true })\<close>: the fields
  present in the body are validated and set on the stored document; the \<^verbatim>\<open>save\<close> hooks do not
  run on this path. The updated document is returned.
\<close>

definition mood_validate_update :: "mood_body \<Rightarrow> string option" where
  "mood_validate_update b =
     (if (case mb_mood b of None \<Rightarrow> False | Some m \<Rightarrow> m \<notin> set mood_enum)
        then Some ''mood: not a valid enum value''
      else if (case mb_intensity b of None \<Rightarrow> False | Some i \<Rightarrow> i < 1)
        then Some ''intensity: below minimum''
      else if (case mb_intensity b of None \<Rightarrow> False | Some i \<Rightarrow> i > 10)
        then Some ''intensity: above maximum''
      else if (case mb_note b of None \<Rightarrow> False | Some n \<Rightarrow> length (trim n) > 500)
        then Some ''note: longer than maximum''
      else if (case mb_activities b of None \<Rightarrow> False
               | Some as \<Rightarrow> \<not> list_all (\<lambda>a. a \<in> set mood_activity_enum) as)
        then Some ''activities: not a valid enum value''
      else None)"

definition mood_apply :: "mood_body \<Rightarrow> mood_doc \<Rightarrow> mood_doc" where
  "mood_apply b d =
     d\<lparr>m_user := (case mb_user b of None \<Rightarrow> m_user d | Some u \<Rightarrow> u),
       m_mood := (case mb_mood b of None \<Rightarrow> m_mood d | Some m \<Rightarrow> m),
       m_intensity := (case mb_intensity b of None \<Rightarrow> m_intensity d | Some i \<Rightarrow> i),
       m_note := (case mb_note b of None \<Rightarrow> m_note d | Some n \<Rightarrow> Some (trim n)),
       m_activities := (case mb_activities b of None \<Rightarrow> m_activities d | Some as \<Rightarrow> as),
       m_tags := (case mb_tags b of None \<Rightarrow> m_tags d | Some ts \<Rightarrow> map trim ts)\<rparr>"

fun update_first :: "('a \<Rightarrow> bool) \<Rightarrow> ('a \<Rightarrow> 'a) \<Rightarrow> 'a list \<Rightarrow> 'a list" where
  "update_first p f [] = []"
| "update_first p f (x # xs) = (if p x then f x # xs else x # update_first p f xs)"

definition Mood_findByIdAndUpdate ::
  "object_id \<Rightarrow> mood_body \<Rightarrow> mood_doc list \<Rightarrow> (error + mood_doc option) \<times> mood_doc list" where
  "Mood_findByIdAndUpdate i b db =
     (case mood_validate_update b of
        Some msg \<Rightarrow> (Inl (ValidationError msg), db)
      | None \<Rightarrow>
          let db' = update_first (\<lambda>d. m_id d = i) (mood_apply b) db
          in (Inr (Mood_findById i db'), db'))"

text \<open>\<^verbatim>\<open>doc.remove()\<close>: the document with that id leaves the collection.\<close>

definition Mood_remove :: "mood_doc \<Rightarrow> mood_doc list \<Rightarrow> mood_doc list" where
  "Mood_remove d db = filter (\<lambda>x. m_id x \<noteq> m_id d) db"

subsection \<open>The mood controller\<close>

definition getMood :: "auth_user \<Rightarrow> object_id \<Rightarrow> mood_doc list \<Rightarrow> error + mood_doc reply" where
  "getMood user i db =
     (case Mood_findById i db of
        None \<Rightarrow> Inl (ErrorResponse (''Mood entry not found with id of '' @ i) 404)
      | Some mood \<Rightarrow>
          if m_user mood \<noteq> user_id user \<and> user_role user \<noteq> ''admin''
          then Inl (ErrorResponse (''User '' @ user_id user
                      @ '' is not authorized to access this mood entry'') 401)
          else Inr (json 200 mood))"

text \<open>
  \<^verbatim>\<open>req.body.user = req.user.id\<close> sets the field of an object body. On an array body it sets
  a property named \<^verbatim>\<open>user\<close> on the array itself, which \<^verbatim>\<open>Mood.create\<close> does not read: the
  elements stay as the client sent them.
\<close>

definition createMood ::
  "auth_user \<Rightarrow> mood_body json_body \<Rightarrow> (nat \<Rightarrow> object_id) \<Rightarrow> date \<Rightarrow> mood_doc list
     \<Rightarrow> (error + mood_doc created reply) \<times> mood_doc list" where
  "createMood user body fresh now db =
     (let body' = (case body of
                     JsonObject b \<Rightarrow> JsonObject (b\<lparr>mb_user := Some (user_id user)\<rparr>)
                   | JsonArray bs \<Rightarrow> JsonArray bs)
      in case Mood_create body' fresh now db of
           (Inl e, db') \<Rightarrow> (Inl e, db')
         | (Inr mood, db') \<Rightarrow> (Inr (json 201 mood), db'))"

definition updateMood ::
  "auth_user \<Rightarrow> object_id \<Rightarrow> mood_body \<Rightarrow> mood_doc list
     \<Rightarrow> (error + mood_doc option reply) \<times> mood_doc list" where
  "updateMood user i body db =
     (case Mood_findById i db of
        None \<Rightarrow> (Inl (ErrorResponse (''Mood entry not found with id of '' @ i) 404), db)
      | Some mood \<Rightarrow>
          if m_user mood \<noteq> user_id user \<and> user_role user \<noteq> ''admin''
          then (Inl (ErrorResponse (''User '' @ user_id user
                       @ '' is not authorized to update this mood entry'') 401), db)
          else (case Mood_findByIdAndUpdate i body db of
                  (Inl e, db') \<Rightarrow> (Inl e, db')
                | (Inr mood', db') \<Rightarrow> (Inr (json 200 mood'), db')))"

definition deleteMood ::
  "auth_user \<Rightarrow> object_id \<Rightarrow> mood_doc list \<Rightarrow> (error + unit reply) \<times> mood_doc list" where
  "deleteMood user i db =
     (case Mood_findById i db of
        None \<Rightarrow> (Inl (ErrorResponse (''Mood entry not found with id of '' @ i) 404), db)
      | Some mood \<Rightarrow>
          if m_user mood \<noteq> user_id user \<and> user_role user \<noteq> ''admin''
          then (Inl (ErrorResponse (''User '' @ user_id user
                       @ '' is not authorized to delete this mood entry'') 401), db)
          else (Inr (json 200 ()), Mood_remove mood db))"

section \<open>Journal entries\<close>

text \<open>
  The fields of \<^verbatim>\<open>journalSchema\<close> that the specification's data model names. A number that
  may be fractional (the sentiment score) is a rational.
\<close>

record journal_doc =
  j_id :: object_id
  j_user :: object_id
  j_content :: string
  j_emotion :: string
  j_sentimentScore :: "rat option"
  j_mood :: int
  j_tags :: "string list"
  j_createdAt :: date

record journal_body =
  jb_user :: "object_id option"
  jb_content :: "string option"
  jb_emotion :: "string option"
  jb_sentimentScore :: "rat option"
  jb_mood :: "int option"
  jb_tags :: "string list option"

definition positiveWords :: "string list" where
  "positiveWords = [''happy'', ''joy'', ''excited'', ''good'', ''great'', ''amazing'',
     ''wonderful'']"

definition negativeWords :: "string list" where
  "negativeWords = [''sad'', ''angry'', ''anxious'', ''bad'', ''terrible'', ''awful'', ''worst'']"

text \<open>
  The two \<^verbatim>\<open>forEach\<close> loops of the hook: one point up for each positive word the content
  includes, one point down for each negative word.
\<close>

definition keyword_score :: "string \<Rightarrow> int" where
  "keyword_score text =
     (let content = toLowerCase text in
      fold (\<lambda>word score. if str_includes content word then score - 1 else score) negativeWords
        (fold (\<lambda>word score. if str_includes content word then score + 1 else score)
           positiveWords 0))"

text \<open>\<^verbatim>\<open>Math.max(-1, Math.min(1, score / 5))\<close>\<close>

definition sentiment_of :: "string \<Rightarrow> rat" where
  "sentiment_of text = max (- 1) (min 1 (of_int (keyword_score text) / 5))"

text \<open>
  \<^verbatim>\<open>journalSchema.pre('save')\<close>. The first argument is \<^verbatim>\<open>this.isModified('content')\<close>;
  \<^verbatim>\<open>!this.sentimentScore\<close> holds of an absent score and of the number 0.
\<close>

definition journal_pre_save :: "bool \<Rightarrow> journal_doc \<Rightarrow> journal_doc" where
  "journal_pre_save isModified_content d =
     (if isModified_content \<and> (j_sentimentScore d = None \<or> j_sentimentScore d = Some 0)
      then d\<lparr>j_sentimentScore := Some (sentiment_of (j_content d))\<rparr>
      else d)"

definition journal_validate_create :: "journal_body \<Rightarrow> string option" where
  "journal_validate_create b =
     (if jb_user b = None then Some ''User ID is required''
      else if (case jb_content b of None \<Rightarrow> True | Some c \<Rightarrow> trim c = [])
        then Some ''Journal content is required''
      else if (case jb_emotion b of None \<Rightarrow> False | Some e \<Rightarrow> e \<notin> set mood_enum)
        then Some ''emotion: not a valid enum value''
      else if (case jb_sentimentScore b of None \<Rightarrow> False | Some s \<Rightarrow> s < - 1)
        then Some ''sentimentScore: below minimum''
      else if (case jb_sentimentScore b of None \<Rightarrow> False | Some s \<Rightarrow> s > 1)
        then Some ''sentimentScore: above maximum''
      else if jb_mood b = None then Some ''Mood rating is required''
      else if the (jb_mood b) < 1 then Some ''mood: below minimum''
      else if the (jb_mood b) > 5 then Some ''mood: above maximum''
      else None)"

text \<open>
  Saving one new journal document: build, validate, run the pre-save hook (the content of a
  new document counts as modified), insert.
\<close>

definition Journal_save ::
  "journal_body \<Rightarrow> object_id \<Rightarrow> date \<Rightarrow> journal_doc list
     \<Rightarrow> (error + journal_doc) \<times> journal_doc list" where
  "Journal_save b oid now db =
     (case journal_validate_create b of
        Some msg \<Rightarrow> (Inl (ValidationError msg), db)
      | None \<Rightarrow>
          let d = journal_pre_save True
                    \<lparr>j_id = oid, j_user = the (jb_user b), j_content = trim (the (jb_content b)),
                     j_emotion = (case jb_emotion b of None \<Rightarrow> ''neutral'' | Some e \<Rightarrow> e),
                     j_sentimentScore = jb_sentimentScore b,
                     j_mood = the (jb_mood b),
                     j_tags = (case jb_tags b of None \<Rightarrow> [] | Some ts \<Rightarrow> map trim ts),
                     j_createdAt = now\<rparr>
          in (Inr d, db @ [d]))"

text \<open>\<^verbatim>\<open>Journal.create(body)\<close>, for an object and for an array.\<close>

definition Journal_create ::
  "journal_body json_body \<Rightarrow> (nat \<Rightarrow> object_id) \<Rightarrow> date \<Rightarrow> journal_doc list
     \<Rightarrow> (error + journal_doc created) \<times> journal_doc list" where
  "Journal_create body fresh now db =
     (case body of
        JsonObject b \<Rightarrow>
          (case Journal_save b (fresh 0) now db of
             (Inl e, db') \<Rightarrow> (Inl e, db')
           | (Inr d, db') \<Rightarrow> (Inr (One d), db'))
      | JsonArray bs \<Rightarrow>
          (case create_many Journal_save fresh 0 now bs db of
             (Some e, docs, db') \<Rightarrow> (Inl e, db')
           | (None, docs, db') \<Rightarrow> (Inr (Many docs), db')))"

text \<open>\<^verbatim>\<open>Journal.findById(id)\<close>, on well-formed ids as for moods.\<close>

definition Journal_findById :: "object_id \<Rightarrow> journal_doc list \<Rightarrow> journal_doc option" where
  "Journal_findById i db = find (\<lambda>d. j_id d = i) db"

definition journal_validate_update :: "journal_body \<Rightarrow> string option" where
  "journal_validate_update b =
     (if (case jb_content b of None \<Rightarrow> False | Some c \<Rightarrow> trim c = [])
        then Some ''Journal content is required''
      else if (case jb_emotion b of None \<Rightarrow> False | Some e \<Rightarrow> e \<notin> set mood_enum)
        then Some ''emotion: not a valid enum value''
      else if (case jb_sentimentScore b of None \<Rightarrow> False | Some s \<Rightarrow> s < - 1)
        then Some ''sentimentScore: below minimum''
      else if (case jb_sentimentScore b of None \<Rightarrow> False | Some s \<Rightarrow> s > 1)
        then Some ''sentimentScore: above maximum''
      else if (case jb_mood b of None \<Rightarrow> False | Some m \<Rightarrow> m < 1)
        then Some ''mood: below minimum''
      else if (case jb_mood b of None \<Rightarrow> False | Some m \<Rightarrow> m > 5)
        then Some ''mood: above maximum''
      else None)"

definition journal_apply :: "journal_body \<Rightarrow> journal_doc \<Rightarrow> journal_doc" where
  "journal_apply b d =
     d\<lparr>j_user := (case jb_user b of None \<Rightarrow> j_user d | Some u \<Rightarrow> u),
       j_content := (case jb_content b of None \<Rightarrow> j_content d | Some c \<Rightarrow> trim c),
       j_emotion := (case jb_emotion b of None \<Rightarrow> j_emotion d | Some e \<Rightarrow> e),
       j_sentimentScore :=
         (case jb_sentimentScore b of None \<Rightarrow> j_sentimentScore d | Some s \<Rightarrow> Some s),
       j_mood := (case jb_mood b of None \<Rightarrow> j_mood d | Some m \<Rightarrow> m),
       j_tags := (case jb_tags b of None \<Rightarrow> j_tags d | Some ts \<Rightarrow> map trim ts)\<rparr>"

text \<open>
  \<^verbatim>\<open>Journal.findByIdAndUpdate(id, body, { new: true, runValidators: true })\<close>: as for
  moods, the fields of the body are validated and set, and no \<^verbatim>\<open>save\<close> hook runs.
\<close>

definition Journal_findByIdAndUpdate ::
  "object_id \<Rightarrow> journal_body \<Rightarrow> journal_doc list
     \<Rightarrow> (error + journal_doc option) \<times> journal_doc list" where
  "Journal_findByIdAndUpdate i b db =
     (case journal_validate_update b of
        Some msg \<Rightarrow> (Inl (ValidationError msg), db)
      | None \<Rightarrow>
          let db' = update_first (\<lambda>d. j_id d = i) (journal_apply b) db
          in (Inr (Journal_findById i db'), db'))"

definition Journal_remove :: "journal_doc \<Rightarrow> journal_doc list \<Rightarrow> journal_doc list" where
  "Journal_remove d db = filter (\<lambda>x. j_id x \<noteq> j_id d) db"

subsection \<open>The journal controller\<close>

definition getJournal ::
  "auth_user \<Rightarrow> object_id \<Rightarrow> journal_doc list \<Rightarrow> error + journal_doc reply" where
  "getJournal user i db =
     (case Journal_findById i db of
        None \<Rightarrow> Inl (ErrorResponse (''Journal not found with id of '' @ i) 404)
      | Some journal \<Rightarrow>
          if j_user journal \<noteq> user_id user \<and> user_role user \<noteq> ''admin''
          then Inl (ErrorResponse (''User '' @ user_id user
                      @ '' is not authorized to access this journal'') 401)
          else Inr (json 200 journal))"

text \<open>As in \<^verbatim>\<open>createMood\<close>, the assignment reaches an object body only.\<close>

definition createJournal ::
  "auth_user \<Rightarrow> journal_body json_body \<Rightarrow> (nat \<Rightarrow> object_id) \<Rightarrow> date \<Rightarrow> journal_doc list
     \<Rightarrow> (error + journal_doc created reply) \<times> journal_doc list" where
  "createJournal user body fresh now db =
     (let body' = (case body of
                     JsonObject b \<Rightarrow> JsonObject (b\<lparr>jb_user := Some (user_id user)\<rparr>)
                   | JsonArray bs \<Rightarrow> JsonArray bs)
      in case Journal_create body' fresh now db of
           (Inl e, db') \<Rightarrow> (Inl e, db')
         | (Inr journal, db') \<Rightarrow> (Inr (json 201 journal), db'))"

definition updateJournal ::
  "auth_user \<Rightarrow> object_id \<Rightarrow> journal_body \<Rightarrow> journal_doc list
     \<Rightarrow> (error + journal_doc option reply) \<times> journal_doc list" where
  "updateJournal user i body db =
     (case Journal_findById i db of
        None \<Rightarrow> (Inl (ErrorResponse (''Journal not found with id of '' @ i) 404), db)
      | Some journal \<Rightarrow>
          if j_user journal \<noteq> user_id user \<and> user_role user \<noteq> ''admin''
          then (Inl (ErrorResponse (''User '' @ user_id user
                       @ '' is not authorized to update this journal'') 401), db)
          else (case Journal_findByIdAndUpdate i body db of
                  (Inl e, db') \<Rightarrow> (Inl e, db')
                | (Inr journal', db') \<Rightarrow> (Inr (json 200 journal'), db')))"

definition deleteJournal ::
  "auth_user \<Rightarrow> object_id \<Rightarrow> journal_doc list \<Rightarrow> (error + unit reply) \<times> journal_doc list" where
  "deleteJournal user i db =
     (case Journal_findById i db of
        None \<Rightarrow> (Inl (ErrorResponse (''Journal not found with id of '' @ i) 404), db)
      | Some journal \<Rightarrow>
          if j_user journal \<noteq> user_id user \<and> user_role user \<noteq> ''admin''
          then (Inl (ErrorResponse (''User '' @ user_id user
                       @ '' is not authorized to delete this journal'') 401), db)
          else (Inr (json 200 ()), Journal_remove journal db))"

section \<open>Mood insights\<close>

text \<open>
  \<^verbatim>\<open>Mood.find({ user, createdAt: { $gte: since } }).sort({ createdAt: -1 })\<close>: the user's
  entries from \<open>since\<close> on, newest first (entries of equal date keep their stored order).
\<close>

definition Mood_find_since :: "object_id \<Rightarrow> date \<Rightarrow> mood_doc list \<Rightarrow> mood_doc list" where
  "Mood_find_since uid since db =
     sort_key (\<lambda>d. - m_createdAt d) (filter (\<lambda>d. m_user d = uid \<and> since \<le> m_createdAt d) db)"

text \<open>
  \<^verbatim>\<open>acc[k] = (acc[k] || 0) + 1\<close> over a list of keys: an object keeps its string keys in
  insertion order, so the counts are an association list.
\<close>

fun bump :: "string \<Rightarrow> (string \<times> nat) list \<Rightarrow> (string \<times> nat) list" where
  "bump k [] = [(k, 1)]"
| "bump k ((k', n) # rest) = (if k = k' then (k', n + 1) # rest else (k', n) # bump k rest)"

definition count_keys :: "string list \<Rightarrow> (string \<times> nat) list" where
  "count_keys ks = fold bump ks []"

text \<open>
  \<^verbatim>\<open>Object.entries(counts).sort((a, b) => b[1] - a[1])[0][0]\<close>: the sort is stable, and
  reading element 0 of an empty array throws.
\<close>

definition most_common :: "(string \<times> nat) list \<Rightarrow> string option" where
  "most_common entries =
     (case sort_key (\<lambda>(k, n). - int n) entries of [] \<Rightarrow> None | (k, n) # rest \<Rightarrow> Some k)"

text \<open>\<^verbatim>\<open>[...new Set(xs)]\<close>: the first occurrence of each element, in order.\<close>

definition dedupe :: "'a list \<Rightarrow> 'a list" where
  "dedupe xs = fold (\<lambda>x acc. if x \<in> set acc then acc else acc @ [x]) xs []"

text \<open>
  A JavaScript number is an IEEE double. \<open>binary64 x\<close> is the double nearest to the exact
  number \<open>x\<close>, a tie going to the even mantissa, for \<open>x\<close> within the range of the normal
  doubles: it is what a division of two integers below \<open>2 ^ 53\<close> yields.
\<close>

function bit_length :: "nat \<Rightarrow> nat" where
  "bit_length n = (if n = 0 then 0 else Suc (bit_length (n div 2)))"
  by pat_completeness auto
termination
  by (relation "measure (\<lambda>n. n)") auto

definition pow2 :: "int \<Rightarrow> rat" where
  "pow2 e = (if 0 \<le> e then 2 ^ nat e else 1 / 2 ^ nat (- e))"

text \<open>For positive \<open>x\<close>, the exponent \<open>e\<close> with \<open>2 ^ e \<le> x < 2 ^ (e + 1)\<close>.\<close>

definition floor_log2 :: "rat \<Rightarrow> int" where
  "floor_log2 x =
     (let (p, q) = quotient_of x;
          d = int (bit_length (nat p)) - int (bit_length (nat q))
      in if pow2 d \<le> x then d else d - 1)"

definition round_half_even :: "rat \<Rightarrow> int" where
  "round_half_even x =
     (let f = \<lfloor>x\<rfloor>; r = x - of_int f in
      if r < 1 / 2 then f else if 1 / 2 < r then f + 1 else if even f then f else f + 1)"

definition binary64 :: "rat \<Rightarrow> rat" where
  "binary64 x =
     (if x = 0 then 0
      else let a = \<bar>x\<bar>; e = floor_log2 a;
               m = of_int (round_half_even (a * pow2 (52 - e))) * pow2 (e - 52)
           in if x < 0 then - m else m)"

text \<open>
  \<^verbatim>\<open>parseFloat(x.toFixed(2))\<close>: \<^verbatim>\<open>toFixed\<close> takes the exact value of the double \<open>x\<close> and
  picks the nearest number with two decimals, the larger one on a tie; the result is kept as
  that decimal number, which is how the reply prints it.
\<close>

definition toFixed2 :: "rat \<Rightarrow> rat" where
  "toFixed2 x =
     (if x < 0 then - (of_int \<lfloor>- x * 100 + 1 / 2\<rfloor> / 100) else of_int \<lfloor>x * 100 + 1 / 2\<rfloor> / 100)"

datatype insights_data =
    NoData (no_message: string) (no_suggestions: "string list")
  | Insights (recentMood: mood_doc) (moodTrend: "(date \<times> string \<times> int) list")
      (averageIntensity: rat) (mostCommonMood: string) (moodCounts: "(string \<times> nat) list")
      (totalEntries: nat) (insights: "string list") (suggestions: "string list")

definition trend_insight :: "mood_doc \<Rightarrow> mood_doc \<Rightarrow> string list" where
  "trend_insight firstMood lastMood =
     (let moodChange = m_intensity lastMood - m_intensity firstMood in
      if \<bar>moodChange\<bar> > 2
      then [''Your mood has '' @ (if moodChange > 0 then ''improved'' else ''declined'')
              @ '' significantly over the past week.'']
      else [])"

text \<open>
  The activity block: the insight it pushes and the suggestion it may push, or the
  \<^verbatim>\<open>TypeError\<close> of reading the first entry of an empty list.
\<close>

definition activity_insight :: "mood_doc list \<Rightarrow> (string list \<times> string list) option" where
  "activity_insight recentMoods =
     (let activities = concat (map m_activities recentMoods) in
      if length activities > 0
      then (case most_common (count_keys activities) of
              None \<Rightarrow> None
            | Some mostCommonActivity \<Rightarrow>
                Some ([''You've been engaging in '' @ mostCommonActivity @ '' frequently.''],
                      if mostCommonActivity = ''exercise''
                      then [''Keep up with your exercise routine! Regular physical activity is great for mental health.'']
                      else if mostCommonActivity = ''meditation''
                      then [''Your meditation practice is helping build mindfulness. Consider trying different techniques.'']
                      else []))
      else Some ([], []))"

definition mood_suggestions :: "string \<Rightarrow> string list" where
  "mood_suggestions mostCommon =
     (if mostCommon = ''anxious''
      then [''Try deep breathing exercises to help manage anxiety.'',
            ''Consider journaling about what's causing your anxiety to better understand and process your feelings.'']
      else if mostCommon = ''sad''
      then [''Reach out to a friend or loved one for support.'',
            ''Engage in activities you usually enjoy, even if you don't feel like it right now.'']
      else if mostCommon = ''happy''
      then [''Share your positive energy with others!'',
            ''Take a moment to reflect on what's contributing to your happiness.'']
      else [])"

definition intensity_suggestions :: "rat \<Rightarrow> string list" where
  "intensity_suggestions avgIntensity =
     (if avgIntensity > 7
      then [''Your high intensity moods suggest you might benefit from stress-reduction techniques.'']
      else if avgIntensity < 4
      then [''Consider activities that energize you to help lift your mood.'']
      else [])"

definition getMoodInsights ::
  "auth_user \<Rightarrow> date \<Rightarrow> mood_doc list \<Rightarrow> error + insights_data reply" where
  "getMoodInsights user now db =
     (let sevenDaysAgo = days_before 7 now;
          recentMoods = Mood_find_since (user_id user) sevenDaysAgo db
      in case recentMoods of
           [] \<Rightarrow>
             Inr (json 200 (NoData ''No mood entries found in the last 7 days''
               [''Start by adding your first mood entry to track your emotional well-being.'']))
         | lastMood # older \<Rightarrow>
             let avgIntensity =
                   binary64 (of_int (fold (\<lambda>mood sum. sum + m_intensity mood) recentMoods 0)
                     / of_nat (length recentMoods));
                 counts = count_keys (map m_mood recentMoods)
             in (case most_common counts of
                   None \<Rightarrow> Inl (TypeError ''Cannot read properties of undefined'')
                 | Some mostCommon \<Rightarrow>
                     let firstMood = last recentMoods in
                     (case activity_insight recentMoods of
                        None \<Rightarrow> Inl (TypeError ''Cannot read properties of undefined'')
                      | Some (activityInsights, activitySuggestions) \<Rightarrow>
                          Inr (json 200
                            (Insights lastMood
                               (map (\<lambda>m. (m_createdAt m, m_mood m, m_intensity m)) recentMoods)
                               (toFixed2 avgIntensity) mostCommon counts (length recentMoods)
                               (trend_insight firstMood lastMood @ activityInsights)
                               (take 3 (dedupe (activitySuggestions @ mood_suggestions mostCommon
                                  @ intensity_suggestions avgIntensity))))))))"

section \<open>Statistics\<close>

text \<open>
  An aggregation \<^verbatim>\<open>$group\<close> stage: one group per key, holding the documents of that key.
  MongoDB leaves the order of the groups open; here they come in the order in which their
  keys first occur.
\<close>

definition group_by :: "('a \<Rightarrow> 'k) \<Rightarrow> 'a list \<Rightarrow> ('k \<times> 'a list) list" where
  "group_by key xs = map (\<lambda>k. (k, filter (\<lambda>x. key x = k) xs)) (dedupe (map key xs))"

text \<open>\<^verbatim>\<open>$avg\<close> over the (non-empty) group.\<close>

definition avg :: "int list \<Rightarrow> rat" where
  "avg xs = of_int (sum_list xs) / of_nat (length xs)"

record 'k mood_bucket =
  bk_key :: 'k
  bk_count :: nat
  bk_avgIntensity :: rat

record 'k mood_group =
  mg_key :: 'k
  mg_avgIntensity :: rat
  mg_count :: nat
  mg_moods :: "string list"

definition mood_group_of :: "'k \<times> mood_doc list \<Rightarrow> 'k mood_group" where
  "mood_group_of g =
     \<lparr>mg_key = fst g, mg_avgIntensity = avg (map m_intensity (snd g)),
      mg_count = length (snd g), mg_moods = map m_mood (snd g)\<rparr>"

text \<open>
  The five pipelines of \<^verbatim>\<open>getMoodStats\<close>. \<^verbatim>\<open>$dateToString\<close> with the format
  \<^verbatim>\<open>%Y-%m-%d\<close> names the calendar day of a date; the model keeps the day as its number since
  the epoch, which orders the days as their names do. A \<^verbatim>\<open>$sort\<close> on the count keeps groups
  of equal count in their incoming order.
\<close>

definition moodDistribution :: "object_id \<Rightarrow> mood_doc list \<Rightarrow> string mood_bucket list" where
  "moodDistribution uid db =
     sort_key (\<lambda>b. - int (bk_count b))
       (map (\<lambda>g. \<lparr>bk_key = fst g, bk_count = length (snd g),
                   bk_avgIntensity = avg (map m_intensity (snd g))\<rparr>)
          (group_by m_mood (filter (\<lambda>d. m_user d = uid) db)))"

definition moodTimeline :: "object_id \<Rightarrow> date \<Rightarrow> mood_doc list \<Rightarrow> int mood_group list" where
  "moodTimeline uid now db =
     (let thirtyDaysAgo = days_before 30 now in
      sort_key mg_key
        (map mood_group_of
           (group_by (\<lambda>d. day_of (m_createdAt d))
              (filter (\<lambda>d. m_user d = uid \<and> thirtyDaysAgo \<le> m_createdAt d) db))))"

definition moodByDay :: "object_id \<Rightarrow> mood_doc list \<Rightarrow> nat mood_group list" where
  "moodByDay uid db =
     sort_key mg_key
       (map mood_group_of
          (group_by (\<lambda>d. getDay (m_createdAt d) + 1) (filter (\<lambda>d. m_user d = uid) db)))"

definition moodByHour :: "object_id \<Rightarrow> mood_doc list \<Rightarrow> nat mood_group list" where
  "moodByHour uid db =
     sort_key mg_key
       (map mood_group_of
          (group_by (\<lambda>d. getHours (m_createdAt d)) (filter (\<lambda>d. m_user d = uid) db)))"

definition activitiesCorrelation :: "object_id \<Rightarrow> mood_doc list \<Rightarrow> string mood_group list" where
  "activitiesCorrelation uid db =
     (let matched = filter (\<lambda>d. m_user d = uid \<and> m_activities d \<noteq> []) db;
          unwound = concat (map (\<lambda>d. map (\<lambda>a. (a, d)) (m_activities d)) matched)
      in sort_key (\<lambda>g. - int (mg_count g))
           (map (\<lambda>g. mood_group_of (fst g, map snd (snd g))) (group_by fst unwound)))"

record mood_stats =
  ms_moodDistribution :: "string mood_bucket list"
  ms_moodTimeline :: "int mood_group list"
  ms_moodByDay :: "nat mood_group list"
  ms_moodByHour :: "nat mood_group list"
  ms_activitiesCorrelation :: "string mood_group list"

definition getMoodStats :: "auth_user \<Rightarrow> date \<Rightarrow> mood_doc list \<Rightarrow> mood_stats reply" where
  "getMoodStats user now db =
     json 200
       \<lparr>ms_moodDistribution = moodDistribution (user_id user) db,
        ms_moodTimeline = moodTimeline (user_id user) now db,
        ms_moodByDay = moodByDay (user_id user) db,
        ms_moodByHour = moodByHour (user_id user) db,
        ms_activitiesCorrelation = activitiesCorrelation (user_id user) db\<rparr>"

text \<open>The three pipelines of \<^verbatim>\<open>getJournalStats\<close>.\<close>

record 'k count_row =
  cr_key :: 'k
  cr_count :: nat

record journal_day =
  jd_key :: int
  jd_count :: nat
  jd_avgMood :: rat

definition moodStats :: "object_id \<Rightarrow> journal_doc list \<Rightarrow> string count_row list" where
  "moodStats uid db =
     sort_key (\<lambda>r. - int (cr_count r))
       (map (\<lambda>g. \<lparr>cr_key = fst g, cr_count = length (snd g)\<rparr>)
          (group_by j_emotion (filter (\<lambda>d. j_user d = uid) db)))"

definition journalTimeline :: "object_id \<Rightarrow> journal_doc list \<Rightarrow> journal_day list" where
  "journalTimeline uid db =
     take 30
       (sort_key jd_key
          (map (\<lambda>g. \<lparr>jd_key = fst g, jd_count = length (snd g),
                      jd_avgMood = avg (map j_mood (snd g))\<rparr>)
             (group_by (\<lambda>d. day_of (j_createdAt d)) (filter (\<lambda>d. j_user d = uid) db))))"

definition tagStats :: "object_id \<Rightarrow> journal_doc list \<Rightarrow> string count_row list" where
  "tagStats uid db =
     (let matched = filter (\<lambda>d. j_user d = uid \<and> j_tags d \<noteq> []) db;
          unwound = concat (map j_tags matched)
      in take 10
           (sort_key (\<lambda>r. - int (cr_count r))
              (map (\<lambda>g. \<lparr>cr_key = fst g, cr_count = length (snd g)\<rparr>)
                 (group_by (\<lambda>t. t) unwound))))"

record journal_stats =
  js_moodStats :: "string count_row list"
  js_journalTimeline :: "journal_day list"
  js_tagStats :: "string count_row list"

definition getJournalStats :: "auth_user \<Rightarrow> journal_doc list \<Rightarrow> journal_stats reply" where
  "getJournalStats user db =
     json 200
       \<lparr>js_moodStats = moodStats (user_id user) db,
        js_journalTimeline = journalTimeline (user_id user) db,
        js_tagStats = tagStats (user_id user) db\<rparr>"

section \<open>Listing\<close>

text \<open>
  Modelled from the spec: the middleware \<^verbatim>\<open>advancedResults\<close>, which the mood and journal
  routes load from \<^verbatim>\<open>../middleware/advancedResults\<close> and run before \<^verbatim>\<open>getMoods\<close> and
  \<^verbatim>\<open>getJournals\<close>, is not among the sources. The specification describes it as
  \<^verbatim>\<open>list(ownerId, filter, page)\<close>: it "returns resources scoped to ownerId only (never
  cross-owner), supports field-equality filters and pagination by page/limit, ordered by
  creation time descending". A filter is a body whose present fields must equal the
  document's; pages are counted from 1.
\<close>

definition field_eq :: "'v option \<Rightarrow> 'v \<Rightarrow> bool" where
  "field_eq wanted v = (case wanted of None \<Rightarrow> True | Some w \<Rightarrow> w = v)"

definition mood_matches :: "mood_body \<Rightarrow> mood_doc \<Rightarrow> bool" where
  "mood_matches f d =
     (field_eq (mb_user f) (m_user d) \<and> field_eq (mb_mood f) (m_mood d)
      \<and> field_eq (mb_intensity f) (m_intensity d)
      \<and> (case mb_note f of None \<Rightarrow> True | Some n \<Rightarrow> m_note d = Some n)
      \<and> field_eq (mb_activities f) (m_activities d) \<and> field_eq (mb_tags f) (m_tags d))"

definition journal_matches :: "journal_body \<Rightarrow> journal_doc \<Rightarrow> bool" where
  "journal_matches f d =
     (field_eq (jb_user f) (j_user d) \<and> field_eq (jb_content f) (j_content d)
      \<and> field_eq (jb_emotion f) (j_emotion d)
      \<and> (case jb_sentimentScore f of None \<Rightarrow> True | Some s \<Rightarrow> j_sentimentScore d = Some s)
      \<and> field_eq (jb_mood f) (j_mood d) \<and> field_eq (jb_tags f) (j_tags d))"

definition paginate :: "nat \<Rightarrow> nat \<Rightarrow> 'a list \<Rightarrow> 'a list" where
  "paginate page limit xs = take limit (drop ((page - 1) * limit) xs)"

text \<open>
  Modelled from the spec: \<^verbatim>\<open>advancedResults(Mood, ...)\<close> as the specification's
  \<^verbatim>\<open>list(ownerId, filter, page)\<close> on the mood collection; the middleware's source is missing.
\<close>

definition advancedResults_Mood ::
  "object_id \<Rightarrow> mood_body \<Rightarrow> nat \<Rightarrow> nat \<Rightarrow> mood_doc list \<Rightarrow> mood_doc list" where
  "advancedResults_Mood ownerId f page limit db =
     paginate page limit
       (sort_key (\<lambda>d. - m_createdAt d) (filter (\<lambda>d. m_user d = ownerId \<and> mood_matches f d) db))"

text \<open>
  Modelled from the spec: \<^verbatim>\<open>advancedResults(Journal, ...)\<close> as the specification's
  \<^verbatim>\<open>list(ownerId, filter, page)\<close> on the journal collection; the middleware's source is
  missing.
\<close>

definition advancedResults_Journal ::
  "object_id \<Rightarrow> journal_body \<Rightarrow> nat \<Rightarrow> nat \<Rightarrow> journal_doc list \<Rightarrow> journal_doc list" where
  "advancedResults_Journal ownerId f page limit db =
     paginate page limit
       (sort_key (\<lambda>d. - j_createdAt d)
          (filter (\<lambda>d. j_user d = ownerId \<and> journal_matches f d) db))"

text \<open>
  \<^verbatim>\<open>getMoods\<close> and \<^verbatim>\<open>getJournals\<close> answer 200 with what the middleware left in
  \<^verbatim>\<open>res.advancedResults\<close>; the routes \<^verbatim>\<open>GET /api/mood\<close> and \<^verbatim>\<open>GET /api/journal\<close> run
  the middleware for the authenticated user and then the handler.
\<close>

definition getMoods :: "'r \<Rightarrow> nat \<times> 'r" where
  "getMoods advancedResults = (200, advancedResults)"

definition getJournals :: "'r \<Rightarrow> nat \<times> 'r" where
  "getJournals advancedResults = (200, advancedResults)"

definition GET_mood ::
  "auth_user \<Rightarrow> mood_body \<Rightarrow> nat \<Rightarrow> nat \<Rightarrow> mood_doc list \<Rightarrow> nat \<times> mood_doc list" where
  "GET_mood user f page limit db = getMoods (advancedResults_Mood (user_id user) f page limit db)"

definition GET_journal ::
  "auth_user \<Rightarrow> journal_body \<Rightarrow> nat \<Rightarrow> nat \<Rightarrow> journal_doc list \<Rightarrow> nat \<times> journal_doc list" where
  "GET_journal user f page limit db =
     getJournals (advancedResults_Journal (user_id user) f page limit db)"

section \<open>The client: requests, renewal and retry\<close>

text \<open>
  An axios request configuration: the method and URL, the \<^verbatim>\<open>Authorization\<close> header, and the
  mark \<^verbatim>\<open>_retry\<close> that the response interceptors put on a configuration.
\<close>

record request =
  http_method :: string
  url :: string
  authorization :: "string option"
  retry :: bool

text \<open>
  The body of a response (\<^verbatim>\<open>response.data\<close>): the fields the client reads are the token
  of a \<^verbatim>\<open>TokenResponse\<close> and the \<^verbatim>\<open>message\<close> and \<^verbatim>\<open>error\<close> texts of a failure.
\<close>

record response_data =
  d_token :: "string option"
  d_message :: "string option"
  d_error :: "string option"
  d_body :: string

text \<open>What the network gives back for a dispatched request: a status and a body, or nothing.\<close>

datatype net_reply = Reply nat response_data | NoReply

text \<open>
  The server as the client sees it: the reply to the \<open>k\<close>-th request that the client
  dispatches (counting from 0) may depend on \<open>k\<close> and on the request.
\<close>

type_synonym server = "nat \<Rightarrow> request \<Rightarrow> net_reply"

record response =
  r_status :: nat
  r_data :: response_data
  r_config :: request

text \<open>
  What a promise is rejected with: an \<^verbatim>\<open>AxiosError\<close> (its \<^verbatim>\<open>config\<close> and, if the server
  answered, its \<^verbatim>\<open>response\<close>), the \<^verbatim>\<open>ApiError\<close> that \<^verbatim>\<open>handleApiError\<close> builds (a message
  and the response; it has no \<^verbatim>\<open>config\<close>), or a \<^verbatim>\<open>TypeError\<close> of the runtime.
\<close>

datatype failure =
    AxiosError request "(nat \<times> response_data) option"
  | ApiError string "(nat \<times> response_data) option"
  | JsTypeError string

text \<open>How an awaited promise ends; \<open>Pending\<close> is the promise that never settles.\<close>

datatype 'a promise = Fulfilled 'a | Rejected failure | Pending

text \<open>
  The state of the page: the \<^verbatim>\<open>token\<close> item of \<^verbatim>\<open>localStorage\<close>, \<^verbatim>\<open>window.location.href\<close>,
  whether the module variable \<^verbatim>\<open>refreshTokenRequest\<close> holds a promise, and the requests
  dispatched to the network so far, oldest first.
\<close>

record client =
  localStorage_token :: "string option"
  location_href :: string
  refreshTokenRequest :: bool
  sent :: "request list"

definition refresh_url :: string where
  "refresh_url = ''/auth/refresh-token''"

text \<open>\<^verbatim>\<open>api.post<TokenResponse>('/auth/refresh-token')\<close>\<close>

definition refresh_request :: request where
  "refresh_request = \<lparr>http_method = ''post'', url = refresh_url, authorization = None, retry = False\<rparr>"

text \<open>The request interceptor: the stored token, if any, becomes the \<^verbatim>\<open>Authorization\<close> header.\<close>

definition request_interceptor :: "client \<Rightarrow> request \<Rightarrow> request" where
  "request_interceptor st config =
     (case localStorage_token st of
        Some token \<Rightarrow> config\<lparr>authorization := Some (''Bearer '' @ token)\<rparr>
      | None \<Rightarrow> config)"

text \<open>\<^verbatim>\<open>error.response?.status\<close>\<close>

fun response_status :: "failure \<Rightarrow> nat option" where
  "response_status (AxiosError config resp) = map_option fst resp"
| "response_status (ApiError msg resp) = map_option fst resp"
| "response_status (JsTypeError msg) = None"

text \<open>
  \<^verbatim>\<open>handleApiError\<close>: an axios error becomes an \<^verbatim>\<open>ApiError\<close> with the server's message, any
  other error is thrown on as it is.
\<close>

fun handleApiError :: "failure \<Rightarrow> failure" where
  "handleApiError (AxiosError config resp) =
     ApiError
       (case resp of
          None \<Rightarrow> ''An error occurred''
        | Some (code, d) \<Rightarrow>
            (case d_message d of
               Some m \<Rightarrow> if m \<noteq> [] then m
                         else (case d_error d of
                                 Some e \<Rightarrow> if e \<noteq> [] then e else ''An error occurred''
                               | None \<Rightarrow> ''An error occurred'')
             | None \<Rightarrow> (case d_error d of
                          Some e \<Rightarrow> if e \<noteq> [] then e else ''An error occurred''
                        | None \<Rightarrow> ''An error occurred'')))
       resp"
| "handleApiError (ApiError msg resp) = ApiError msg resp"
| "handleApiError (JsTypeError msg) = JsTypeError msg"

text \<open>The string a template literal makes of a token that may be \<^verbatim>\<open>undefined\<close>.\<close>

definition token_text :: "string option \<Rightarrow> string" where
  "token_text token = (case token of Some t \<Rightarrow> t | None \<Rightarrow> ''undefined'')"

text \<open>Whether the mark stops an error from being handled again.\<close>

fun unmarked :: "failure \<Rightarrow> bool" where
  "unmarked (AxiosError config resp) = (\<not> retry config)"
| "unmarked (ApiError msg resp) = False"
| "unmarked (JsTypeError msg) = False"

text \<open>
  The rank of a call of \<open>api\<close>, of \<open>response_rejected\<close> or of \<open>refreshToken\<close> below:
  it falls along every call chain, because a retry carries the mark and the renewal request
  is sent while \<^verbatim>\<open>refreshTokenRequest\<close> is set.
\<close>

definition call_rank ::
  "(server \<times> request \<times> client) + (server \<times> failure \<times> client) + (server \<times> client) \<Rightarrow> nat" where
  "call_rank c =
     (case c of
        Inl (srv, config, st) \<Rightarrow>
          (if retry config then 0 else 10) + (if refreshTokenRequest st then 0 else 6) + 2
      | Inr (Inl (srv, error, st)) \<Rightarrow>
          (if unmarked error then 10 else 0) + (if refreshTokenRequest st then 0 else 6) + 1
      | Inr (Inr (srv, st)) \<Rightarrow> (if refreshTokenRequest st then 0 else 6) + 8)"

text \<open>
  The axios instance \<^verbatim>\<open>api\<close> with the interceptors that the module installs, for one
  request at a time.

  \<^descr> \<open>api\<close>: the request interceptor runs, the request is dispatched, a status from 200 to
  299 fulfils the promise, anything else goes to the rejection handler of the response
  interceptor.

  \<^descr> \<open>response_rejected\<close>: the handler at lines 68 to 99. An error without a
  \<^verbatim>\<open>config\<close> whose status is 401 makes \<^verbatim>\<open>originalRequest._retry\<close> throw a \<^verbatim>\<open>TypeError\<close>.
  The \<^verbatim>\<open>return api(originalRequest)\<close> is not awaited inside the \<^verbatim>\<open>try\<close>, so a failure of
  the retry is not caught by the \<^verbatim>\<open>catch\<close>.

  \<^descr> \<open>refreshToken\<close>: \<^verbatim>\<open>authService.refreshToken\<close>. With one request at a time, a promise
  found in \<^verbatim>\<open>refreshTokenRequest\<close> is one that this very call is part of (the caller is
  the rejection handler of the renewal request itself) or one left behind by such a call:
  awaiting it never ends, and the \<^verbatim>\<open>finally\<close> block is never reached.
\<close>

function api :: "server \<Rightarrow> request \<Rightarrow> client \<Rightarrow> response promise \<times> client"
  and response_rejected :: "server \<Rightarrow> failure \<Rightarrow> client \<Rightarrow> response promise \<times> client"
  and refreshToken :: "server \<Rightarrow> client \<Rightarrow> response_data promise \<times> client"
where
  "api srv config st =
     (let config1 = request_interceptor st config;
          st1 = st\<lparr>sent := sent st @ [config1]\<rparr>
      in case srv (length (sent st)) config1 of
           Reply code d \<Rightarrow>
             if 200 \<le> code \<and> code < 300
             then (Fulfilled \<lparr>r_status = code, r_data = d, r_config = config1\<rparr>, st1)
             else response_rejected srv (AxiosError config1 (Some (code, d))) st1
         | NoReply \<Rightarrow> response_rejected srv (AxiosError config1 None) st1)"
| "response_rejected srv error st =
     (if response_status error \<noteq> Some 401 then (Rejected error, st)
      else case error of
             AxiosError originalRequest resp \<Rightarrow>
               if retry originalRequest then (Rejected error, st)
               else (case refreshToken srv st of
                       (Fulfilled data, st') \<Rightarrow>
                         api srv
                           (originalRequest\<lparr>retry := True,
                              authorization := Some (''Bearer '' @ token_text (d_token data))\<rparr>)
                           (st'\<lparr>localStorage_token := Some (token_text (d_token data))\<rparr>)
                     | (Rejected refreshError, st') \<Rightarrow>
                         (Rejected refreshError,
                          st'\<lparr>localStorage_token := None, location_href := ''/login''\<rparr>)
                     | (Pending, st') \<Rightarrow> (Pending, st'))
           | ApiError msg resp \<Rightarrow>
               (Rejected (JsTypeError ''Cannot read properties of undefined''), st)
           | JsTypeError msg \<Rightarrow>
               (Rejected (JsTypeError ''Cannot read properties of undefined''), st))"
| "refreshToken srv st =
     (if refreshTokenRequest st then (Pending, st)
      else case api srv refresh_request (st\<lparr>refreshTokenRequest := True\<rparr>) of
             (Fulfilled tokenData, st') \<Rightarrow>
               (Fulfilled (r_data tokenData), st'\<lparr>refreshTokenRequest := False\<rparr>)
           | (Rejected error, st') \<Rightarrow>
               (Rejected (handleApiError error), st'\<lparr>refreshTokenRequest := False\<rparr>)
           | (Pending, st') \<Rightarrow> (Pending, st'))"
  by pat_completeness auto
termination
  by (relation "measure call_rank")
    (auto simp: call_rank_def request_interceptor_def refresh_request_def split: option.splits)

text \<open>
  The rejection handler that \<^verbatim>\<open>setupResponseInterceptor\<close> installs (lines 137 to 165), with
  its two callbacks: \<^verbatim>\<open>onTokenRefresh\<close> ends with a new token, a failure or never, and
  \<^verbatim>\<open>onUnauthenticated\<close> acts on the page.
\<close>

definition setupResponseInterceptor_rejected ::
  "(client \<Rightarrow> string promise \<times> client) \<Rightarrow> (failure \<Rightarrow> client \<Rightarrow> client)
     \<Rightarrow> server \<Rightarrow> failure \<Rightarrow> client \<Rightarrow> response promise \<times> client" where
  "setupResponseInterceptor_rejected onTokenRefresh onUnauthenticated srv error st =
     (if response_status error \<noteq> Some 401 then (Rejected error, st)
      else case error of
             AxiosError originalRequest resp \<Rightarrow>
               if retry originalRequest then (Rejected error, st)
               else (case onTokenRefresh st of
                       (Fulfilled newToken, st') \<Rightarrow>
                         api srv
                           (originalRequest\<lparr>retry := True,
                              authorization := Some (''Bearer '' @ newToken)\<rparr>)
                           st'
                     | (Rejected refreshError, st') \<Rightarrow>
                         (Rejected refreshError,
                          onUnauthenticated (AxiosError (originalRequest\<lparr>retry := True\<rparr>) resp) st')
                     | (Pending, st') \<Rightarrow> (Pending, st'))
           | ApiError msg resp \<Rightarrow>
               (Rejected (JsTypeError ''Cannot read properties of undefined''), st)
           | JsTypeError msg \<Rightarrow>
               (Rejected (JsTypeError ''Cannot read properties of undefined''), st))"

section \<open>Renewal with several callers\<close>

text \<open>
  \<^verbatim>\<open>authService.refreshToken\<close> is an \<^verbatim>\<open>async\<close> function: a call runs without interruption up
  to its \<^verbatim>\<open>await\<close>, is suspended there, and is resumed when the awaited promise settles.
  With several requests in flight the calls interleave at those points only, so the function
  is modelled by its two halves acting on the module's shared state.

  The shared state: the promise held by \<^verbatim>\<open>refreshTokenRequest\<close> (promises are numbered in
  the order in which \<^verbatim>\<open>api.post('/auth/refresh-token')\<close> creates them), the number of such
  renewal requests issued so far, the suspended calls with the promise each one awaits, and
  the calls that have returned, with what they returned or threw.
\<close>

record renewal =
  slot :: "nat option"
  posted :: nat
  awaiting :: "(nat \<times> nat) list"
  returned :: "(nat \<times> (failure + response_data)) list"

text \<open>
  The first half, for caller \<open>c\<close>: if \<^verbatim>\<open>refreshTokenRequest\<close> holds a promise the call awaits
  it (line 208); otherwise it issues the renewal request, stores its promise and awaits
  that (lines 212 and 213).
\<close>

definition refreshToken_enter :: "nat \<Rightarrow> renewal \<Rightarrow> renewal" where
  "refreshToken_enter c st =
     (case slot st of
        Some p \<Rightarrow> st\<lparr>awaiting := awaiting st @ [(c, p)]\<rparr>
      | None \<Rightarrow>
          st\<lparr>slot := Some (posted st), posted := posted st + 1,
             awaiting := awaiting st @ [(c, posted st)]\<rparr>)"

text \<open>
  The second half, for caller \<open>c\<close> and the outcome \<open>r\<close> of the awaited promise: the call
  returns the response's data, or throws what \<^verbatim>\<open>handleApiError\<close> makes of the error, and
  its \<^verbatim>\<open>finally\<close> block clears \<^verbatim>\<open>refreshTokenRequest\<close>.
\<close>

definition refreshToken_resume :: "failure + response \<Rightarrow> nat \<Rightarrow> renewal \<Rightarrow> renewal" where
  "refreshToken_resume r c st =
     st\<lparr>returned := returned st @
          [(c, case r of Inl error \<Rightarrow> Inl (handleApiError error)
                | Inr tokenData \<Rightarrow> Inr (r_data tokenData))],
        slot := None\<rparr>"

text \<open>
  What happens on the page: a caller invokes \<^verbatim>\<open>refreshToken\<close> (its request has come back
  with 401), or the promise of a renewal request settles. When a promise settles, the calls
  awaiting it are resumed one after the other, in the order in which they were suspended,
  before anything else runs.
\<close>

datatype event = Call nat | Settle nat "failure + response"

fun step :: "event \<Rightarrow> renewal \<Rightarrow> renewal" where
  "step (Call c) st = refreshToken_enter c st"
| "step (Settle p r) st =
     fold (refreshToken_resume r) (map fst (filter (\<lambda>w. snd w = p) (awaiting st)))
       (st\<lparr>awaiting := filter (\<lambda>w. snd w \<noteq> p) (awaiting st)\<rparr>)"

definition run :: "event list \<Rightarrow> renewal \<Rightarrow> renewal" where
  "run events st = fold step events st"

definition idle :: renewal where
  "idle = \<lparr>slot = None, posted = 0, awaiting = [], returned = []\<rparr>"

section \<open>Sample data\<close>

definition alice :: auth_user where
  "alice = \<lparr>user_id = ''a11ce'', user_role = ''user''\<rparr>"

definition bob :: auth_user where
  "bob = \<lparr>user_id = ''b0b'', user_role = ''user''\<rparr>"

definition root :: auth_user where
  "root = \<lparr>user_id = ''r007'', user_role = ''admin''\<rparr>"

definition no_mood_fields :: mood_body where
  "no_mood_fields = \<lparr>mb_user = None, mb_mood = None, mb_intensity = None, mb_note = None,
     mb_activities = None, mb_tags = None\<rparr>"

definition no_journal_fields :: journal_body where
  "no_journal_fields = \<lparr>jb_user = None, jb_content = None, jb_emotion = None,
     jb_sentimentScore = None, jb_mood = None, jb_tags = None\<rparr>"

definition mood_of_alice :: mood_doc where
  "mood_of_alice = \<lparr>m_id = ''m1'', m_user = ''a11ce'', m_mood = ''anxious'', m_intensity = 8,
     m_note = Some ''exam week'', m_activities = [''exercise''], m_tags = [''school''],
     m_createdAt = 1000\<rparr>"

definition journal_of_alice :: journal_doc where
  "journal_of_alice = \<lparr>j_id = ''j1'', j_user = ''a11ce'', j_content = ''a good day'',
     j_emotion = ''calm'', j_sentimentScore = Some (1 / 5), j_mood = 4, j_tags = [],
     j_createdAt = 2000\<rparr>"

text \<open>Fresh ids of the driver: a prefix and a running number.\<close>

definition ids :: "string \<Rightarrow> nat \<Rightarrow> nat \<Rightarrow> object_id" where
  "ids prefix start k = prefix @ string_of_nat (start + k)"

text \<open>A create request of Alice that names Bob as the owner, and what it stores.\<close>

definition forged_mood_body :: mood_body where
  "forged_mood_body = no_mood_fields\<lparr>mb_user := Some ''b0b'', mb_mood := Some ''happy'',
     mb_intensity := Some 7\<rparr>"

definition stored_mood :: mood_doc where
  "stored_mood = \<lparr>m_id = ''m9'', m_user = ''a11ce'', m_mood = ''happy'', m_intensity = 7,
     m_note = Some ''Feeling happy with intensity 7/10'', m_activities = [],
     m_tags = [''friday'', ''morning''], m_createdAt = 90000000\<rparr>"

definition forged_journal_body :: journal_body where
  "forged_journal_body = no_journal_fields\<lparr>jb_user := Some ''b0b'',
     jb_content := Some ''  Happy and GOOD day '', jb_mood := Some 3\<rparr>"

definition stored_journal :: journal_doc where
  "stored_journal = \<lparr>j_id = ''j9'', j_user = ''a11ce'', j_content = ''Happy and GOOD day'',
     j_emotion = ''neutral'', j_sentimentScore = Some (2 / 5), j_mood = 3, j_tags = [],
     j_createdAt = 90000000\<rparr>"

definition mood_of_bob :: mood_doc where
  "mood_of_bob = \<lparr>m_id = ''m2'', m_user = ''b0b'', m_mood = ''happy'', m_intensity = 6,
     m_note = None, m_activities = [], m_tags = [], m_createdAt = 860000000\<rparr>"

definition journal_of_bob :: journal_doc where
  "journal_of_bob = \<lparr>j_id = ''j2'', j_user = ''b0b'', j_content = ''worst day'',
     j_emotion = ''sad'', j_sentimentScore = Some (- 1 / 2), j_mood = 1, j_tags = [],
     j_createdAt = 860000000\<rparr>"

text \<open>The journal entry of Alice is what a create request with this body stores.\<close>

definition good_day_body :: journal_body where
  "good_day_body = no_journal_fields\<lparr>jb_content := Some ''a good day'',
     jb_emotion := Some ''calm'', jb_mood := Some 4\<rparr>"

text \<open>Journal entries of Alice on the 31 days 0, 1, ..., 30.\<close>

definition month_of_journals :: "journal_doc list" where
  "month_of_journals =
     map (\<lambda>n. journal_of_alice\<lparr>j_id := string_of_nat n, j_createdAt := int n * ms_per_day\<rparr>)
       [0..<31]"

text \<open>
  A page holding the token \<open>t1\<close>, a request for the mood list, and a server that renews
  tokens but answers 401 to everything else.
\<close>

definition dashboard :: client where
  "dashboard = \<lparr>localStorage_token = Some ''t1'', location_href = ''/dashboard'',
     refreshTokenRequest = False, sent = []\<rparr>"

definition get_moods :: request where
  "get_moods = \<lparr>http_method = ''get'', url = ''/mood'', authorization = None, retry = False\<rparr>"

definition unauthorized :: response_data where
  "unauthorized = \<lparr>d_token = None, d_message = Some ''Not authorized'', d_error = None,
     d_body = []\<rparr>"

definition renewed :: response_data where
  "renewed = \<lparr>d_token = Some ''t2'', d_message = None, d_error = None, d_body = []\<rparr>"

definition strict_server :: server where
  "strict_server k config =
     (if url config = refresh_url then Reply 200 renewed else Reply 401 unauthorized)"

section \<open>Ownership of created entries\<close>

lemma mood_pre_save_user: "m_user (mood_pre_save d) = m_user d"
  by (simp add: mood_pre_save_def Let_def)

lemma Mood_save_user:
  assumes "Mood_save b oid now db = (Inr d, db')"
  shows "Some (m_user d) = mb_user b \<and> db' = db @ [d]"
  using assms
  by (auto simp: Mood_save_def Let_def mood_pre_save_user mood_validate_create_def
      split: option.splits if_splits)

lemma createMood_owner:
  assumes "createMood user (JsonObject body) fresh now db = (Inr r, db')"
  shows "\<exists>d. payload r = One d \<and> m_user d = user_id user \<and> status r = 201 \<and> db' = db @ [d]"
proof -
  obtain d where d: "Mood_save (body\<lparr>mb_user := Some (user_id user)\<rparr>) (fresh 0) now db = (Inr d, db')"
    and r: "r = json 201 (One d)"
    using assms
    by (auto simp: createMood_def Mood_create_def Let_def split: prod.splits sum.splits)
  from Mood_save_user[OF d] r show ?thesis by (simp add: json_def)
qed

lemma createMood_failure:
  assumes "createMood user (JsonObject body) fresh now db = (Inl e, db')"
  shows "db' = db"
  using assms
  by (auto simp: createMood_def Mood_create_def Let_def Mood_save_def
      split: prod.splits sum.splits option.splits)

lemma Journal_save_user:
  assumes "Journal_save b oid now db = (Inr d, db')"
  shows "Some (j_user d) = jb_user b \<and> db' = db @ [d]"
  using assms
  by (auto simp: Journal_save_def Let_def journal_pre_save_def journal_validate_create_def
      split: option.splits if_splits)

lemma createJournal_owner:
  assumes "createJournal user (JsonObject body) fresh now db = (Inr r, db')"
  shows "\<exists>d. payload r = One d \<and> j_user d = user_id user \<and> status r = 201 \<and> db' = db @ [d]"
proof -
  obtain d where
    d: "Journal_save (body\<lparr>jb_user := Some (user_id user)\<rparr>) (fresh 0) now db = (Inr d, db')"
    and r: "r = json 201 (One d)"
    using assms
    by (auto simp: createJournal_def Journal_create_def Let_def split: prod.splits sum.splits)
  from Journal_save_user[OF d] r show ?thesis by (simp add: json_def)
qed

lemma createJournal_failure:
  assumes "createJournal user (JsonObject body) fresh now db = (Inl e, db')"
  shows "db' = db"
  using assms
  by (auto simp: createJournal_def Journal_create_def Let_def Journal_save_def
      split: prod.splits sum.splits option.splits)

text \<open>A create request whose body is an object that passes validation does store an entry.\<close>

lemma createMood_succeeds:
  assumes "mood_validate_create (body\<lparr>mb_user := Some (user_id user)\<rparr>) = None"
  shows "\<exists>d. createMood user (JsonObject body) fresh now db = (Inr (json 201 (One d)), db @ [d])"
  using assms by (simp add: createMood_def Mood_create_def Mood_save_def Let_def)

lemma createJournal_succeeds:
  assumes "journal_validate_create (body\<lparr>jb_user := Some (user_id user)\<rparr>) = None"
  shows "\<exists>d. createJournal user (JsonObject body) fresh now db
           = (Inr (json 201 (One d)), db @ [d])"
  using assms by (simp add: createJournal_def Journal_create_def Journal_save_def Let_def)

text \<open>
  When the body of a create request is a JSON object, the entry that gets stored has the
  authenticated caller's id as its owner, whatever the body says: the handler overwrites the
  body's \<^verbatim>\<open>user\<close> field before the entry is built, so the outcome does not depend on the
  supplied value at all. An object that fails validation stores nothing.
\<close>

lemma create_object_stamps_owner:
  "(createMood user (JsonObject body) fresh now db = (Inr r, db') \<longrightarrow>
      (\<exists>d. payload r = One d \<and> m_user d = user_id user \<and> status r = 201 \<and> db' = db @ [d]))
   \<and> (createMood user (JsonObject body) fresh now db = (Inl e, db') \<longrightarrow> db' = db)
   \<and> createMood user (JsonObject (body\<lparr>mb_user := supplied\<rparr>)) fresh now db
       = createMood user (JsonObject body) fresh now db
   \<and> (createJournal user (JsonObject jbody) jfresh jnow jdb = (Inr jr, jdb') \<longrightarrow>
      (\<exists>d. payload jr = One d \<and> j_user d = user_id user \<and> status jr = 201
           \<and> jdb' = jdb @ [d]))
   \<and> (createJournal user (JsonObject jbody) jfresh jnow jdb = (Inl e, jdb') \<longrightarrow> jdb' = jdb)
   \<and> createJournal user (JsonObject (jbody\<lparr>jb_user := supplied\<rparr>)) jfresh jnow jdb
       = createJournal user (JsonObject jbody) jfresh jnow jdb"
  using createMood_owner createMood_failure createJournal_owner createJournal_failure
  by (simp add: createMood_def createJournal_def)

lemma forged_object_is_stamped:
  "createMood alice (JsonObject forged_mood_body) (ids ''m'' 9) 90000000 []
     = (Inr (json 201 (One stored_mood)), [stored_mood])
   \<and> createJournal alice (JsonObject forged_journal_body) (ids ''j'' 9) 90000000 []
     = (Inr (json 201 (One stored_journal)), [stored_journal])
   \<and> m_user stored_mood = user_id alice \<and> j_user stored_journal = user_id alice"
  by code_simp

text \<open>On an array body the caller plays no part in what is stored.\<close>

lemma create_array_ignores_caller:
  "createMood user (JsonArray bs) fresh now db = createMood user' (JsonArray bs) fresh now db"
  "createJournal user (JsonArray js) fresh now jdb = createJournal user' (JsonArray js) fresh now jdb"
  by (simp_all add: createMood_def createJournal_def)

text \<open>
  C1. The stored owner is not the caller for every create request. Alice sends a create
  request whose body is a JSON array with one element, and the element names Bob as its
  \<^verbatim>\<open>user\<close>. The handler's assignment does not reach the element, \<^verbatim>\<open>Model.create\<close> saves
  it as it is, and the answer is 201: the stored mood entry, and likewise the stored journal
  entry, belongs to Bob.
\<close>

theorem create_array_keeps_supplied_owner:
  "createMood alice (JsonArray [forged_mood_body]) (ids ''m'' 9) 90000000 []
     = (Inr (json 201 (Many [stored_mood\<lparr>m_user := ''b0b''\<rparr>])),
        [stored_mood\<lparr>m_user := ''b0b''\<rparr>])
   \<and> createJournal alice (JsonArray [forged_journal_body]) (ids ''j'' 9) 90000000 []
     = (Inr (json 201 (Many [stored_journal\<lparr>j_user := ''b0b''\<rparr>])),
        [stored_journal\<lparr>j_user := ''b0b''\<rparr>])
   \<and> user_id alice = ''a11ce''
   \<and> mb_user forged_mood_body = Some ''b0b'' \<and> jb_user forged_journal_body = Some ''b0b''"
  by code_simp

section \<open>The ownership check of get, update and delete\<close>

lemma getMood_denied:
  assumes "Mood_findById i db = Some e"
  shows "denied_with 401 (getMood A i db)
           = (m_user e \<noteq> user_id A \<and> user_role A \<noteq> ''admin'')"
  using assms by (simp add: getMood_def)

lemma updateMood_denied:
  assumes "Mood_findById i db = Some e"
  shows "denied_with 401 (fst (updateMood A i patch db))
           = (m_user e \<noteq> user_id A \<and> user_role A \<noteq> ''admin'')"
  using assms
  by (auto simp: updateMood_def Mood_findByIdAndUpdate_def Let_def split: option.splits)

lemma deleteMood_denied:
  assumes "Mood_findById i db = Some e"
  shows "denied_with 401 (fst (deleteMood A i db))
           = (m_user e \<noteq> user_id A \<and> user_role A \<noteq> ''admin'')"
  using assms by (simp add: deleteMood_def)

lemma mood_denial_keeps_store:
  assumes "Mood_findById i db = Some e" "m_user e \<noteq> user_id A" "user_role A \<noteq> ''admin''"
  shows "snd (updateMood A i patch db) = db \<and> snd (deleteMood A i db) = db"
  using assms by (simp add: updateMood_def deleteMood_def)

lemma mood_allowed:
  assumes "Mood_findById i db = Some e" "m_user e = user_id A \<or> user_role A = ''admin''"
  shows "getMood A i db = Inr (json 200 e)
    \<and> deleteMood A i db = (Inr (json 200 ()), Mood_remove e db)"
  using assms by (auto simp: getMood_def deleteMood_def)

lemma getJournal_denied:
  assumes "Journal_findById i db = Some e"
  shows "denied_with 401 (getJournal A i db)
           = (j_user e \<noteq> user_id A \<and> user_role A \<noteq> ''admin'')"
  using assms by (simp add: getJournal_def)

lemma updateJournal_denied:
  assumes "Journal_findById i db = Some e"
  shows "denied_with 401 (fst (updateJournal A i patch db))
           = (j_user e \<noteq> user_id A \<and> user_role A \<noteq> ''admin'')"
  using assms
  by (auto simp: updateJournal_def Journal_findByIdAndUpdate_def Let_def split: option.splits)

lemma deleteJournal_denied:
  assumes "Journal_findById i db = Some e"
  shows "denied_with 401 (fst (deleteJournal A i db))
           = (j_user e \<noteq> user_id A \<and> user_role A \<noteq> ''admin'')"
  using assms by (simp add: deleteJournal_def)

lemma journal_denial_keeps_store:
  assumes "Journal_findById i db = Some e" "j_user e \<noteq> user_id A" "user_role A \<noteq> ''admin''"
  shows "snd (updateJournal A i patch db) = db \<and> snd (deleteJournal A i db) = db"
  using assms by (simp add: updateJournal_def deleteJournal_def)

lemma journal_allowed:
  assumes "Journal_findById i db = Some e" "j_user e = user_id A \<or> user_role A = ''admin''"
  shows "getJournal A i db = Inr (json 200 e)
    \<and> deleteJournal A i db = (Inr (json 200 ()), Journal_remove e db)"
  using assms by (auto simp: getJournal_def deleteJournal_def)

text \<open>An owner's or admin's update with a valid body goes through and answers 200.\<close>

lemma update_allowed_proceeds:
  assumes "m_user e = user_id A \<or> user_role A = ''admin''"
  shows "Mood_findById i db = Some e \<Longrightarrow> mood_validate_update patch = None \<Longrightarrow>
           updateMood A i patch db =
             (Inr (json 200 (Mood_findById i (update_first (\<lambda>d. m_id d = i) (mood_apply patch) db))),
              update_first (\<lambda>d. m_id d = i) (mood_apply patch) db)"
  using assms by (auto simp: updateMood_def Mood_findByIdAndUpdate_def Let_def)

text \<open>
  C2, as the claim states it, fails: Bob, who is neither the owner nor an admin, is refused
  Alice's mood entry, but the error the handler forwards carries the status 401, not 403.
\<close>

theorem denial_status_counterexample:
  "Mood_findById ''m1'' [mood_of_alice] = Some mood_of_alice
   \<and> m_user mood_of_alice \<noteq> user_id bob \<and> user_role bob \<noteq> ''admin''
   \<and> \<not> denied_with 403 (getMood bob ''m1'' [mood_of_alice])
   \<and> getMood bob ''m1'' [mood_of_alice]
       = Inl (ErrorResponse ''User b0b is not authorized to access this mood entry'' 401)"
  by (simp add: getMood_def Mood_findById_def mood_of_alice_def bob_def)

text \<open>
  C2, amended. For an existing mood or journal entry, get, update and delete are refused
  exactly when the caller is neither the entry's owner nor an admin; the refusal is an
  \<^verbatim>\<open>ErrorResponse\<close> carrying the status code 401, and it leaves the collection as it was.
  Owners and admins are let through: get answers 200 with the entry, delete answers 200 and
  removes it, update goes on to the update itself.
\<close>

theorem ownership_denial_is_401:
  assumes "Mood_findById i db = Some e" and "Journal_findById k jdb = Some j"
  shows "(denied_with 401 (getMood A i db)
            \<longleftrightarrow> m_user e \<noteq> user_id A \<and> user_role A \<noteq> ''admin'')
    \<and> (denied_with 401 (fst (updateMood A i patch db))
            \<longleftrightarrow> m_user e \<noteq> user_id A \<and> user_role A \<noteq> ''admin'')
    \<and> (denied_with 401 (fst (deleteMood A i db))
            \<longleftrightarrow> m_user e \<noteq> user_id A \<and> user_role A \<noteq> ''admin'')
    \<and> (m_user e \<noteq> user_id A \<and> user_role A \<noteq> ''admin'' \<longrightarrow>
          snd (updateMood A i patch db) = db \<and> snd (deleteMood A i db) = db)
    \<and> (m_user e = user_id A \<or> user_role A = ''admin'' \<longrightarrow>
          getMood A i db = Inr (json 200 e)
          \<and> deleteMood A i db = (Inr (json 200 ()), Mood_remove e db))
    \<and> (denied_with 401 (getJournal A k jdb)
            \<longleftrightarrow> j_user j \<noteq> user_id A \<and> user_role A \<noteq> ''admin'')
    \<and> (denied_with 401 (fst (updateJournal A k jpatch jdb))
            \<longleftrightarrow> j_user j \<noteq> user_id A \<and> user_role A \<noteq> ''admin'')
    \<and> (denied_with 401 (fst (deleteJournal A k jdb))
            \<longleftrightarrow> j_user j \<noteq> user_id A \<and> user_role A \<noteq> ''admin'')
    \<and> (j_user j \<noteq> user_id A \<and> user_role A \<noteq> ''admin'' \<longrightarrow>
          snd (updateJournal A k jpatch jdb) = jdb \<and> snd (deleteJournal A k jdb) = jdb)
    \<and> (j_user j = user_id A \<or> user_role A = ''admin'' \<longrightarrow>
          getJournal A k jdb = Inr (json 200 j)
          \<and> deleteJournal A k jdb = (Inr (json 200 ()), Journal_remove j jdb))"
proof -
  note m = assms(1) and jn = assms(2)
  show ?thesis
    using getMood_denied[OF m, of A] updateMood_denied[OF m, of A patch]
      deleteMood_denied[OF m, of A] mood_denial_keeps_store[OF m, of A patch]
      mood_allowed[OF m, of A]
      getJournal_denied[OF jn, of A] updateJournal_denied[OF jn, of A jpatch]
      deleteJournal_denied[OF jn, of A] journal_denial_keeps_store[OF jn, of A jpatch]
      journal_allowed[OF jn, of A]
    by blast
qed

theorem ownership_denial_is_401_witness:
  "Mood_findById ''m1'' [mood_of_alice] = Some mood_of_alice
   \<and> Journal_findById ''j1'' [journal_of_alice] = Some journal_of_alice
   \<and> m_user mood_of_alice \<noteq> user_id bob \<and> j_user journal_of_alice \<noteq> user_id bob
   \<and> user_role bob \<noteq> ''admin''
   \<and> denied_with 401 (getMood bob ''m1'' [mood_of_alice])
   \<and> denied_with 401 (fst (updateMood bob ''m1'' no_mood_fields [mood_of_alice]))
   \<and> denied_with 401 (fst (deleteMood bob ''m1'' [mood_of_alice]))
   \<and> snd (deleteMood bob ''m1'' [mood_of_alice]) = [mood_of_alice]
   \<and> denied_with 401 (getJournal bob ''j1'' [journal_of_alice])
   \<and> denied_with 401 (fst (updateJournal bob ''j1'' no_journal_fields [journal_of_alice]))
   \<and> denied_with 401 (fst (deleteJournal bob ''j1'' [journal_of_alice]))
   \<and> user_role root = ''admin''
   \<and> getMood root ''m1'' [mood_of_alice] = Inr (json 200 mood_of_alice)
   \<and> getJournal alice ''j1'' [journal_of_alice] = Inr (json 200 journal_of_alice)"
proof -
  have m: "Mood_findById ''m1'' [mood_of_alice] = Some mood_of_alice"
    by (simp add: Mood_findById_def mood_of_alice_def)
  have j: "Journal_findById ''j1'' [journal_of_alice] = Some journal_of_alice"
    by (simp add: Journal_findById_def journal_of_alice_def)
  have who: "m_user mood_of_alice \<noteq> user_id bob" "j_user journal_of_alice \<noteq> user_id bob"
    "user_role bob \<noteq> ''admin''" "user_role root = ''admin''"
    "j_user journal_of_alice = user_id alice"
    by (simp_all add: mood_of_alice_def journal_of_alice_def bob_def root_def alice_def)
  from ownership_denial_is_401[OF m j, of bob no_mood_fields no_journal_fields]
    ownership_denial_is_401[OF m j, of root no_mood_fields no_journal_fields]
    ownership_denial_is_401[OF m j, of alice no_mood_fields no_journal_fields]
    m j who
  show ?thesis by simp
qed

section \<open>The owner field under update\<close>

text \<open>
  C3. The update handlers hand the whole request body to \<^verbatim>\<open>findByIdAndUpdate\<close>. Alice,
  updating her own entries with a body whose \<^verbatim>\<open>user\<close> field names Bob, gets 200, and the
  stored entries now belong to Bob: the owner is not preserved.
\<close>

theorem update_reassigns_owner:
  "updateMood alice ''m1'' (no_mood_fields\<lparr>mb_user := Some ''b0b''\<rparr>) [mood_of_alice]
     = (Inr (json 200 (Some (mood_of_alice\<lparr>m_user := ''b0b''\<rparr>))),
        [mood_of_alice\<lparr>m_user := ''b0b''\<rparr>])
   \<and> updateJournal alice ''j1'' (no_journal_fields\<lparr>jb_user := Some ''b0b''\<rparr>) [journal_of_alice]
     = (Inr (json 200 (Some (journal_of_alice\<lparr>j_user := ''b0b''\<rparr>))),
        [journal_of_alice\<lparr>j_user := ''b0b''\<rparr>])
   \<and> m_user mood_of_alice = ''a11ce'' \<and> j_user journal_of_alice = ''a11ce''"
  by (simp add: updateMood_def Mood_findById_def mood_of_alice_def alice_def no_mood_fields_def
      Mood_findByIdAndUpdate_def mood_validate_update_def mood_apply_def
      updateJournal_def Journal_findById_def journal_of_alice_def no_journal_fields_def
      Journal_findByIdAndUpdate_def journal_validate_update_def journal_apply_def)

text \<open>
  An update whose body has no \<^verbatim>\<open>user\<close> field keeps the owner of every stored entry.
\<close>

lemma mood_apply_keeps_owner: "mb_user b = None \<Longrightarrow> m_user (mood_apply b d) = m_user d"
  by (simp add: mood_apply_def)

lemma update_first_map: "map g (update_first p f xs) = map g xs" if "\<And>x. g (f x) = g x"
  using that by (induction xs) auto

lemma updateMood_without_user_keeps_owners:
  assumes "mb_user patch = None"
  shows "map m_user (snd (updateMood A i patch db)) = map m_user db"
  using assms
  by (auto simp: updateMood_def Mood_findByIdAndUpdate_def Let_def mood_apply_keeps_owner
      update_first_map split: option.splits)

lemma updateJournal_without_user_keeps_owners:
  assumes "jb_user patch = None"
  shows "map j_user (snd (updateJournal A i patch db)) = map j_user db"
  using assms
  by (auto simp: updateJournal_def Journal_findByIdAndUpdate_def Let_def journal_apply_def
      update_first_map split: option.splits)

section \<open>Insights\<close>

lemma Mood_find_since_empty:
  assumes "\<forall>m \<in> set db. m_user m = uid \<longrightarrow> m_createdAt m < since"
  shows "Mood_find_since uid since db = []"
proof -
  have "filter (\<lambda>d. m_user d = uid \<and> since \<le> m_createdAt d) db = []"
    using assms by (auto simp: filter_empty_conv)
  then show ?thesis by (simp add: Mood_find_since_def)
qed

text \<open>
  C9. When the user has no mood entry in the last seven days, the insights handler answers
  200 with the fixed message and a single starter suggestion; nothing is divided and nothing
  is thrown on that path.
\<close>

theorem insights_on_empty_window:
  assumes "\<forall>m \<in> set db. m_user m = user_id user \<longrightarrow> m_createdAt m < days_before 7 now"
  shows "getMoodInsights user now db
           = Inr (json 200 (NoData ''No mood entries found in the last 7 days''
               [''Start by adding your first mood entry to track your emotional well-being.'']))
         \<and> (\<exists>r. getMoodInsights user now db = Inr r \<and> status r = 200
               \<and> length (no_suggestions (payload r)) = 1)"
  using Mood_find_since_empty[OF assms]
  by (simp add: getMoodInsights_def Let_def json_def)

theorem insights_on_empty_window_witness:
  "m_user mood_of_alice = user_id alice
   \<and> m_createdAt mood_of_alice < days_before 7 864000000
   \<and> m_user mood_of_bob \<noteq> user_id alice
   \<and> getMoodInsights alice 864000000 [mood_of_alice, mood_of_bob]
       = Inr (json 200 (NoData ''No mood entries found in the last 7 days''
           [''Start by adding your first mood entry to track your emotional well-being.'']))"
proof -
  have h: "\<forall>m \<in> set [mood_of_alice, mood_of_bob].
             m_user m = user_id alice \<longrightarrow> m_createdAt m < days_before 7 864000000"
    by (simp add: mood_of_alice_def mood_of_bob_def alice_def days_before_def ms_per_day_def)
  have a: "m_user mood_of_alice = user_id alice"
    "m_createdAt mood_of_alice < days_before 7 864000000"
    "m_user mood_of_bob \<noteq> user_id alice"
    by (simp_all add: mood_of_alice_def mood_of_bob_def alice_def days_before_def ms_per_day_def)
  from insights_on_empty_window[OF h] a show ?thesis by simp
qed

text \<open>With entries in the window the handler does not throw either.\<close>

lemma bump_not_Nil: "bump k acc \<noteq> []"
  by (cases acc) (auto split: if_splits)

lemma fold_bump_not_Nil: "acc \<noteq> [] \<Longrightarrow> fold bump ks acc \<noteq> []"
  by (induction ks arbitrary: acc) (auto simp: bump_not_Nil)

lemma count_keys_not_Nil: "ks \<noteq> [] \<Longrightarrow> count_keys ks \<noteq> []"
  by (cases ks) (auto simp: count_keys_def fold_bump_not_Nil bump_not_Nil)

lemma most_common_Some: "entries \<noteq> [] \<Longrightarrow> \<exists>k. most_common entries = Some k"
proof -
  assume "entries \<noteq> []"
  then have "length (sort_key (\<lambda>(k, n). - int n) entries) \<noteq> 0" by simp
  then have "sort_key (\<lambda>(k, n). - int n) entries \<noteq> []" by (simp del: length_sort)
  then show ?thesis by (auto simp: most_common_def split: list.splits)
qed

lemma activity_insight_Some: "\<exists>p. activity_insight ms = Some p"
proof (cases "concat (map m_activities ms) = []")
  case True
  then show ?thesis by (simp add: activity_insight_def)
next
  case False
  from most_common_Some[OF count_keys_not_Nil[OF False]] obtain k
    where "most_common (count_keys (concat (map m_activities ms))) = Some k" by blast
  with False show ?thesis by (simp add: activity_insight_def Let_def)
qed

lemma getMoodInsights_never_throws: "\<exists>r. getMoodInsights user now db = Inr r"
proof (cases "Mood_find_since (user_id user) (days_before 7 now) db")
  case Nil
  then show ?thesis by (simp add: getMoodInsights_def Let_def)
next
  case (Cons m ms)
  have "map m_mood (m # ms) \<noteq> []" by simp
  from most_common_Some[OF count_keys_not_Nil[OF this]] obtain k
    where k: "most_common (count_keys (map m_mood (m # ms))) = Some k" by blast
  obtain p where p: "activity_insight (m # ms) = Some p"
    using activity_insight_Some by blast
  show ?thesis using Cons k p
    by (cases p) (simp add: getMoodInsights_def Let_def)
qed

section \<open>The sentiment score\<close>

text \<open>
  C10. In the pre-save hook a stored score of exactly 0 counts as absent: when the content
  is set or modified the hook replaces it by the keyword heuristic of the content. A nonzero
  score is left as it is, whether or not the content was modified. The same is seen through
  \<^verbatim>\<open>createJournal\<close> on an object body: a supplied 0 is stored as the heuristic's value, a supplied nonzero
  score (which validation keeps within -1 and 1) is stored unchanged.
\<close>

theorem zero_score_is_absent:
  "(j_sentimentScore d = Some 0 \<longrightarrow>
      journal_pre_save True d = d\<lparr>j_sentimentScore := Some (sentiment_of (j_content d))\<rparr>)
   \<and> (j_sentimentScore d = Some s \<and> s \<noteq> 0 \<longrightarrow> journal_pre_save modified d = d)
   \<and> (createJournal user (JsonObject body) fresh now db = (Inr r, db')
        \<and> jb_sentimentScore body = Some 0 \<longrightarrow>
        (\<exists>d. payload r = One d \<and> j_sentimentScore d = Some (sentiment_of (j_content d))))
   \<and> (createJournal user (JsonObject body) fresh now db = (Inr r, db')
        \<and> jb_sentimentScore body = Some s \<and> s \<noteq> 0 \<longrightarrow>
        (\<exists>d. payload r = One d \<and> j_sentimentScore d = Some s) \<and> - 1 \<le> s \<and> s \<le> 1)"
  by (auto simp: journal_pre_save_def createJournal_def Journal_create_def Journal_save_def
      Let_def json_def journal_validate_create_def
      split: option.splits if_splits)

theorem zero_score_is_absent_witness:
  "j_sentimentScore (journal_of_alice\<lparr>j_sentimentScore := Some 0\<rparr>) = Some 0
   \<and> journal_pre_save True (journal_of_alice\<lparr>j_sentimentScore := Some 0\<rparr>) = journal_of_alice
   \<and> j_sentimentScore journal_of_alice = Some (1 / 5)
   \<and> j_sentimentScore journal_of_bob = Some (- 1 / 2) \<and> (- 1 / 2 :: rat) \<noteq> 0
   \<and> journal_pre_save True journal_of_bob = journal_of_bob
   \<and> sentiment_of (j_content journal_of_bob) = - 1 / 5"
proof -
  have z: "j_sentimentScore (journal_of_alice\<lparr>j_sentimentScore := Some 0\<rparr>) = Some 0"
    by simp
  have s: "sentiment_of (j_content journal_of_alice) = 1 / 5"
    "sentiment_of (j_content journal_of_bob) = - 1 / 5"
    by code_simp+
  have a: "journal_of_alice\<lparr>j_sentimentScore := Some (1 / 5)\<rparr> = journal_of_alice"
    "j_sentimentScore journal_of_alice = Some (1 / 5)"
    by (simp_all add: journal_of_alice_def)
  have b: "j_sentimentScore journal_of_bob = Some (- 1 / 2)"
    by (simp add: journal_of_bob_def)
  from zero_score_is_absent[of "journal_of_alice\<lparr>j_sentimentScore := Some 0\<rparr>"]
    zero_score_is_absent[of journal_of_bob "- 1 / 2" True] z s a b
  show ?thesis by simp
qed

text \<open>
  C7. Alice's journal entry was created from \<open>good_day_body\<close> without a score, and the hook
  computed 1/5 for its content. She then changes the content, again without a score: the
  update answers 200, and the stored score is still 1/5, although the heuristic gives -2/5 for
  the new content. The update path never reaches the hook.
\<close>

theorem stale_score_after_update:
  "createJournal alice (JsonObject good_day_body) (ids ''j'' 1) 2000 []
     = (Inr (json 201 (One journal_of_alice)), [journal_of_alice])
   \<and> j_sentimentScore journal_of_alice = Some (sentiment_of ''a good day'')
   \<and> updateJournal alice ''j1'' (no_journal_fields\<lparr>jb_content := Some ''a sad, terrible day''\<rparr>)
        [journal_of_alice]
     = (Inr (json 200 (Some (journal_of_alice\<lparr>j_content := ''a sad, terrible day''\<rparr>))),
        [journal_of_alice\<lparr>j_content := ''a sad, terrible day''\<rparr>])
   \<and> j_sentimentScore (journal_of_alice\<lparr>j_content := ''a sad, terrible day''\<rparr>) = Some (1 / 5)
   \<and> sentiment_of ''a sad, terrible day'' = - 2 / 5"
proof -
  have c: "createJournal alice (JsonObject good_day_body) (ids ''j'' 1) 2000 []
             = (Inr (json 201 (One journal_of_alice)), [journal_of_alice])"
    by code_simp
  have s: "sentiment_of ''a good day'' = 1 / 5" "sentiment_of ''a sad, terrible day'' = - 2 / 5"
    by code_simp+
  have u: "updateJournal alice ''j1''
             (no_journal_fields\<lparr>jb_content := Some ''a sad, terrible day''\<rparr>) [journal_of_alice]
           = (Inr (json 200 (Some (journal_of_alice\<lparr>j_content := ''a sad, terrible day''\<rparr>))),
              [journal_of_alice\<lparr>j_content := ''a sad, terrible day''\<rparr>])"
    by code_simp
  show ?thesis using c s u by (simp add: journal_of_alice_def)
qed

section \<open>Listing entries\<close>

lemma paginate_props:
  "set (paginate page limit xs) \<subseteq> set xs"
  "length (paginate page limit xs) \<le> limit"
  "sorted_wrt R xs \<Longrightarrow> sorted_wrt R (paginate page limit xs)"
  "paginate 1 (length ys) (sort_key k ys) = sort_key k ys"
proof -
  show "set (paginate page limit xs) \<subseteq> set xs"
    unfolding paginate_def using set_take_subset set_drop_subset by fast
  show "length (paginate page limit xs) \<le> limit"
    by (simp add: paginate_def)
  show "sorted_wrt R xs \<Longrightarrow> sorted_wrt R (paginate page limit xs)"
    by (simp add: paginate_def sorted_wrt_take sorted_wrt_drop)
  show "paginate 1 (length ys) (sort_key k ys) = sort_key k ys"
    by (simp add: paginate_def)
qed

lemma newest_first: "sorted_wrt (\<lambda>a b. k b \<le> k a) (sort_key (\<lambda>d. - k d) xs)" for k :: "'a \<Rightarrow> int"
proof -
  have "sorted (map (\<lambda>d. - k d) (sort_key (\<lambda>d. - k d) xs))" by (rule sorted_sort_key)
  then show ?thesis by (simp add: sorted_map)
qed

text \<open>
  C4. The list routes answer 200 with entries of the store that all belong to the
  authenticated user and all satisfy the field-equality filter, newest first, at most
  \<open>limit\<close> of them: the page is the slice of the user's whole filtered, ordered list that
  starts at \<open>(page - 1) * limit\<close>. Nothing of another owner is ever returned.
\<close>

theorem list_is_owner_scoped:
  "fst (GET_mood user f page limit db) = 200
   \<and> (\<forall>d \<in> set (snd (GET_mood user f page limit db)).
         d \<in> set db \<and> m_user d = user_id user \<and> mood_matches f d)
   \<and> sorted_wrt (\<lambda>a b. m_createdAt b \<le> m_createdAt a) (snd (GET_mood user f page limit db))
   \<and> length (snd (GET_mood user f page limit db)) \<le> limit
   \<and> snd (GET_mood user f page limit db)
       = take limit (drop ((page - 1) * limit) (snd (GET_mood user f 1 (length db) db)))
   \<and> fst (GET_journal user jf page limit jdb) = 200
   \<and> (\<forall>d \<in> set (snd (GET_journal user jf page limit jdb)).
         d \<in> set jdb \<and> j_user d = user_id user \<and> journal_matches jf d)
   \<and> sorted_wrt (\<lambda>a b. j_createdAt b \<le> j_createdAt a)
        (snd (GET_journal user jf page limit jdb))
   \<and> length (snd (GET_journal user jf page limit jdb)) \<le> limit
   \<and> snd (GET_journal user jf page limit jdb)
       = take limit (drop ((page - 1) * limit) (snd (GET_journal user jf 1 (length jdb) jdb)))"
proof -
  let ?ms = "sort_key (\<lambda>d. - m_createdAt d)
               (filter (\<lambda>d. m_user d = user_id user \<and> mood_matches f d) db)"
  let ?js = "sort_key (\<lambda>d. - j_createdAt d)
               (filter (\<lambda>d. j_user d = user_id user \<and> journal_matches jf d) jdb)"
  have m: "snd (GET_mood user f page limit db) = paginate page limit ?ms"
    and j: "snd (GET_journal user jf page limit jdb) = paginate page limit ?js"
    by (simp_all add: GET_mood_def getMoods_def advancedResults_Mood_def
        GET_journal_def getJournals_def advancedResults_Journal_def)
  have m1: "snd (GET_mood user f 1 (length db) db) = ?ms"
    and j1: "snd (GET_journal user jf 1 (length jdb) jdb) = ?js"
    by (simp_all add: GET_mood_def getMoods_def advancedResults_Mood_def
        GET_journal_def getJournals_def advancedResults_Journal_def paginate_def)
  have ms: "\<forall>d \<in> set (paginate page limit ?ms).
              d \<in> set db \<and> m_user d = user_id user \<and> mood_matches f d"
    using paginate_props(1)[of page limit ?ms] by auto
  have js: "\<forall>d \<in> set (paginate page limit ?js).
              d \<in> set jdb \<and> j_user d = user_id user \<and> journal_matches jf d"
    using paginate_props(1)[of page limit ?js] by auto
  have mo: "sorted_wrt (\<lambda>a b. m_createdAt b \<le> m_createdAt a) (paginate page limit ?ms)"
    by (rule paginate_props(3)[OF newest_first])
  have jo: "sorted_wrt (\<lambda>a b. j_createdAt b \<le> j_createdAt a) (paginate page limit ?js)"
    by (rule paginate_props(3)[OF newest_first])
  have st: "fst (GET_mood user f page limit db) = 200"
    "fst (GET_journal user jf page limit jdb) = 200"
    by (simp_all add: GET_mood_def getMoods_def GET_journal_def getJournals_def)
  have pm: "paginate page limit ?ms = take limit (drop ((page - 1) * limit) ?ms)"
    and pj: "paginate page limit ?js = take limit (drop ((page - 1) * limit) ?js)"
    by (simp_all only: paginate_def)
  have lm: "length (paginate page limit ?ms) \<le> limit"
    and lj: "length (paginate page limit ?js) \<le> limit"
    by (rule paginate_props(2))+
  show ?thesis
    unfolding m j m1 j1 using ms js mo jo st pm pj lm lj by blast
qed


theorem list_is_owner_scoped_witness:
  "snd (GET_mood alice no_mood_fields 1 10 [mood_of_alice, mood_of_bob]) = [mood_of_alice]
   \<and> m_user mood_of_alice = user_id alice
   \<and> m_user mood_of_bob \<noteq> user_id alice
   \<and> snd (GET_journal alice no_journal_fields 1 10 [journal_of_bob, journal_of_alice])
       = [journal_of_alice]
   \<and> j_user journal_of_alice = user_id alice"
proof -
  have m: "snd (GET_mood alice no_mood_fields 1 10 [mood_of_alice, mood_of_bob])
             = [mood_of_alice]"
    by code_simp
  have j: "snd (GET_journal alice no_journal_fields 1 10 [journal_of_bob, journal_of_alice])
             = [journal_of_alice]"
    by code_simp
  have b: "m_user mood_of_bob \<noteq> user_id alice"
    by (simp add: mood_of_bob_def alice_def)
  from list_is_owner_scoped[of alice no_mood_fields 1 10 "[mood_of_alice, mood_of_bob]"
      no_journal_fields "[journal_of_bob, journal_of_alice]"] m j b
  show ?thesis by simp
qed

section \<open>The statistics timelines\<close>

lemma fold_dedupe_set:
  "set (fold (\<lambda>x acc. if x \<in> set acc then acc else acc @ [x]) xs acc) = set xs \<union> set acc"
  by (induction xs arbitrary: acc) auto

lemma fold_dedupe_distinct:
  "distinct acc \<Longrightarrow> distinct (fold (\<lambda>x acc. if x \<in> set acc then acc else acc @ [x]) xs acc)"
  by (induction xs arbitrary: acc) auto

lemma set_dedupe: "set (dedupe xs) = set xs"
  by (simp add: dedupe_def fold_dedupe_set)

lemma distinct_dedupe: "distinct (dedupe xs)"
  by (simp add: dedupe_def fold_dedupe_distinct)

lemma day_of_mono: "s \<le> t \<Longrightarrow> day_of s \<le> day_of t"
  by (simp add: day_of_def ms_per_day_def zdiv_mono1)

lemma map_insort_key: "map f (insort_key f x xs) = insort (f x) (map f xs)"
  by (induction xs) auto

lemma map_sort_key: "map f (sort_key f xs) = sort (map f xs)"
  by (induction xs) (auto simp: map_insort_key)

lemma group_by_member:
  assumes "g \<in> set (group_by key xs)"
  shows "snd g = filter (\<lambda>x. key x = fst g) xs \<and> fst g \<in> key ` set xs \<and> snd g \<noteq> []"
proof -
  from assms have k: "fst g \<in> set (dedupe (map key xs))"
    and s: "snd g = filter (\<lambda>x. key x = fst g) xs"
    by (auto simp: group_by_def)
  from k have m: "fst g \<in> key ` set xs" by (simp add: set_dedupe)
  then have "filter (\<lambda>x. key x = fst g) xs \<noteq> []" by (auto simp: filter_empty_conv)
  with s m show ?thesis by simp
qed

text \<open>
  The mood timeline is as the claim describes it: one row for each day on which the user
  has an entry inside the thirty-day window, the days ascending, each row carrying the count
  and the average intensity of exactly that day's entries.
\<close>

lemma moodTimeline_days:
  "map mg_key (moodTimeline uid now db)
     = sort (dedupe (map (\<lambda>d. day_of (m_createdAt d))
         (filter (\<lambda>d. m_user d = uid \<and> days_before 30 now \<le> m_createdAt d) db)))"
  by (simp add: moodTimeline_def Let_def map_sort_key group_by_def comp_def mood_group_of_def)

lemma moodTimeline_window:
  "sorted (map mg_key (moodTimeline uid now db))
   \<and> distinct (map mg_key (moodTimeline uid now db))
   \<and> (\<forall>g \<in> set (moodTimeline uid now db).
        day_of (days_before 30 now) \<le> mg_key g
        \<and> 1 \<le> mg_count g
        \<and> mg_count g = length (filter (\<lambda>d. m_user d = uid \<and> days_before 30 now \<le> m_createdAt d
                                     \<and> day_of (m_createdAt d) = mg_key g) db)
        \<and> mg_avgIntensity g = avg (map m_intensity
              (filter (\<lambda>d. m_user d = uid \<and> days_before 30 now \<le> m_createdAt d
                            \<and> day_of (m_createdAt d) = mg_key g) db)))"
proof -
  let ?w = "filter (\<lambda>d. m_user d = uid \<and> days_before 30 now \<le> m_createdAt d) db"
  have s: "sorted (map mg_key (moodTimeline uid now db))"
    and d: "distinct (map mg_key (moodTimeline uid now db))"
    by (simp_all add: moodTimeline_days distinct_dedupe)
  have g: "day_of (days_before 30 now) \<le> mg_key g \<and> 1 \<le> mg_count g
        \<and> mg_count g = length (filter (\<lambda>d. m_user d = uid \<and> days_before 30 now \<le> m_createdAt d
                                     \<and> day_of (m_createdAt d) = mg_key g) db)
        \<and> mg_avgIntensity g = avg (map m_intensity
              (filter (\<lambda>d. m_user d = uid \<and> days_before 30 now \<le> m_createdAt d
                            \<and> day_of (m_createdAt d) = mg_key g) db))"
    if "g \<in> set (moodTimeline uid now db)" for g
  proof -
    from that obtain p where p: "p \<in> set (group_by (\<lambda>d. day_of (m_createdAt d)) ?w)"
      and gp: "g = mood_group_of p"
      by (auto simp: moodTimeline_def Let_def)
    have sp: "snd p = filter (\<lambda>x. day_of (m_createdAt x) = fst p) ?w"
      and kp: "fst p \<in> (\<lambda>d. day_of (m_createdAt d)) ` set ?w" and ne: "snd p \<noteq> []"
      using group_by_member[OF p] by blast+
    have f: "filter (\<lambda>x. day_of (m_createdAt x) = fst p) ?w
               = filter (\<lambda>d. m_user d = uid \<and> days_before 30 now \<le> m_createdAt d
                              \<and> day_of (m_createdAt d) = fst p) db"
      by (simp add: conj_ac cong: conj_cong)
    from kp have lo: "day_of (days_before 30 now) \<le> fst p"
      by (auto intro: day_of_mono)
    from ne have "1 \<le> length (snd p)" by (cases "snd p") simp_all
    with lo sp f show ?thesis
      by (simp add: gp mood_group_of_def)
  qed
  from s d g show ?thesis by blast
qed

text \<open>
  C8. The journal timeline has no window. It groups every journal entry of the user by day,
  sorts the days ascending and keeps the first thirty: an entry of day 0 is still reported
  when the statistics are asked for a hundred days later (the mood timeline, asked on that
  day, has dropped the mood entry of day 0), and of entries on the 31 days 0 to 30 the
  timeline reports the days 0 to 29 and leaves out the most recent one.
\<close>

theorem journal_timeline_is_not_trailing:
  "js_journalTimeline (payload (getJournalStats alice [journal_of_alice]))
     = [\<lparr>jd_key = 0, jd_count = 1, jd_avgMood = 4\<rparr>]
   \<and> day_of (j_createdAt journal_of_alice) = 0
   \<and> ms_moodTimeline (payload (getMoodStats alice (100 * ms_per_day) [mood_of_alice])) = []
   \<and> day_of (m_createdAt mood_of_alice) = 0
   \<and> map (\<lambda>d. day_of (j_createdAt d)) month_of_journals = map int [0..<31]
   \<and> map jd_key (js_journalTimeline (payload (getJournalStats alice month_of_journals)))
       = map int [0..<30]"
  by code_simp

section \<open>Renewal and retry in the client\<close>

text \<open>
  The three equations of \<open>api\<close>, \<open>response_rejected\<close> and \<open>refreshToken\<close> call one
  another, so they are unfolded by hand, one call at a time.
\<close>

declare api.simps [simp del] response_rejected.simps [simp del] refreshToken.simps [simp del]

lemma retry_request_interceptor [simp]: "retry (request_interceptor st config) = retry config"
  and url_request_interceptor [simp]: "url (request_interceptor st config) = url config"
  by (simp_all add: request_interceptor_def split: option.splits)

text \<open>A request that carries the mark is dispatched once; its failure is final.\<close>

lemma api_marked:
  assumes "retry config"
  shows "api srv config st =
     (case srv (length (sent st)) (request_interceptor st config) of
        Reply code d \<Rightarrow>
          if 200 \<le> code \<and> code < 300
          then (Fulfilled \<lparr>r_status = code, r_data = d, r_config = request_interceptor st config\<rparr>,
                st\<lparr>sent := sent st @ [request_interceptor st config]\<rparr>)
          else (Rejected (AxiosError (request_interceptor st config) (Some (code, d))),
                st\<lparr>sent := sent st @ [request_interceptor st config]\<rparr>)
      | NoReply \<Rightarrow>
          (Rejected (AxiosError (request_interceptor st config) None),
           st\<lparr>sent := sent st @ [request_interceptor st config]\<rparr>))"
  using assms
  by (auto simp: api.simps response_rejected.simps Let_def split: net_reply.splits)

lemma api_while_renewing:
  assumes "refreshTokenRequest st"
  shows "api srv config st =
     (case srv (length (sent st)) (request_interceptor st config) of
        Reply code d \<Rightarrow>
          if 200 \<le> code \<and> code < 300
          then (Fulfilled \<lparr>r_status = code, r_data = d, r_config = request_interceptor st config\<rparr>,
                st\<lparr>sent := sent st @ [request_interceptor st config]\<rparr>)
          else if code = 401 \<and> \<not> retry config
          then (Pending, st\<lparr>sent := sent st @ [request_interceptor st config]\<rparr>)
          else (Rejected (AxiosError (request_interceptor st config) (Some (code, d))),
                st\<lparr>sent := sent st @ [request_interceptor st config]\<rparr>)
      | NoReply \<Rightarrow>
          (Rejected (AxiosError (request_interceptor st config) None),
           st\<lparr>sent := sent st @ [request_interceptor st config]\<rparr>))"
  using assms
  by (auto simp: api.simps response_rejected.simps refreshToken.simps Let_def split: net_reply.splits)

lemma refreshToken_idle:
  assumes "\<not> refreshTokenRequest st"
  shows "refreshToken srv st =
     (case srv (length (sent st)) (request_interceptor st refresh_request) of
        Reply code d \<Rightarrow>
          if 200 \<le> code \<and> code < 300
          then (Fulfilled d, st\<lparr>sent := sent st @ [request_interceptor st refresh_request]\<rparr>)
          else if code = 401
          then (Pending, st\<lparr>refreshTokenRequest := True,
                           sent := sent st @ [request_interceptor st refresh_request]\<rparr>)
          else (Rejected (handleApiError
                  (AxiosError (request_interceptor st refresh_request) (Some (code, d)))),
                st\<lparr>sent := sent st @ [request_interceptor st refresh_request]\<rparr>)
      | NoReply \<Rightarrow>
          (Rejected (handleApiError (AxiosError (request_interceptor st refresh_request) None)),
           st\<lparr>sent := sent st @ [request_interceptor st refresh_request]\<rparr>))"
proof -
  have r: "\<not> retry refresh_request" by (simp add: refresh_request_def)
  have i: "request_interceptor (st\<lparr>refreshTokenRequest := True\<rparr>) c = request_interceptor st c" for c
    by (simp add: request_interceptor_def)
  show ?thesis
    using assms r
    by (auto simp: refreshToken.simps[of srv st] api_while_renewing i split: net_reply.splits)
qed


lemma url_refresh_request [simp]: "url refresh_request = refresh_url"
  by (simp add: refresh_request_def)

lemma refreshToken_idle_sent:
  assumes "\<not> refreshTokenRequest st"
  shows "sent (snd (refreshToken srv st)) = sent st @ [request_interceptor st refresh_request]"
  using assms by (auto simp: refreshToken_idle split: net_reply.splits)

lemma api_marked_sent:
  assumes "retry config"
  shows "sent (snd (api srv config st)) = sent st @ [request_interceptor st config]"
  using assms by (auto simp: api_marked split: net_reply.splits)

lemma api_while_renewing_sent:
  assumes "refreshTokenRequest st"
  shows "sent (snd (api srv config st)) = sent st @ [request_interceptor st config]"
  using assms by (auto simp: api_while_renewing split: net_reply.splits)

lemma response_rejected_sent:
  assumes "\<not> refreshTokenRequest st" "unmarked error"
  shows "\<exists>new. sent (snd (response_rejected srv error st)) = sent st @ new
           \<and> (new = [] \<or> (\<exists>c2. url c2 = refresh_url \<and> new = [c2])
               \<or> (\<exists>c2 c3. url c2 = refresh_url \<and> retry c3
                     \<and> (\<forall>c resp. error = AxiosError c resp \<longrightarrow> url c3 = url c) \<and> new = [c2, c3]))"
proof (cases error)
  case (AxiosError c resp)
  with assms have m: "\<not> retry c" by simp
  show ?thesis
  proof (cases "response_status error = Some 401")
    case False
    then show ?thesis by (simp add: response_rejected.simps)
  next
    case True
    obtain out st' where r: "refreshToken srv st = (out, st')" by (cases "refreshToken srv st")
    with refreshToken_idle_sent[OF assms(1), of srv]
    have s': "sent st' = sent st @ [request_interceptor st refresh_request]" by simp
    show ?thesis
    proof (cases out)
      case (Fulfilled data)
      let ?c3 = "c\<lparr>retry := True, authorization := Some (''Bearer '' @ token_text (d_token data))\<rparr>"
      let ?st3 = "st'\<lparr>localStorage_token := Some (token_text (d_token data))\<rparr>"
      have "response_rejected srv error st = api srv ?c3 ?st3"
        using True m r Fulfilled AxiosError by (simp add: response_rejected.simps)
      moreover have "sent (snd (api srv ?c3 ?st3)) = sent ?st3 @ [request_interceptor ?st3 ?c3]"
        by (rule api_marked_sent) simp
      ultimately have "sent (snd (response_rejected srv error st))
          = sent st @ [request_interceptor st refresh_request, request_interceptor ?st3 ?c3]"
        using s' by simp
      moreover have "url (request_interceptor st refresh_request) = refresh_url"
        "retry (request_interceptor ?st3 ?c3)" "url (request_interceptor ?st3 ?c3) = url c"
        by simp_all
      ultimately show ?thesis using AxiosError by blast
    next
      case (Rejected e)
      then have "sent (snd (response_rejected srv error st))
          = sent st @ [request_interceptor st refresh_request]"
        using True m r AxiosError s' by (simp add: response_rejected.simps)
      moreover have "url (request_interceptor st refresh_request) = refresh_url" by simp
      ultimately show ?thesis by blast
    next
      case Pending
      then have "sent (snd (response_rejected srv error st))
          = sent st @ [request_interceptor st refresh_request]"
        using True m r AxiosError s' by (simp add: response_rejected.simps)
      moreover have "url (request_interceptor st refresh_request) = refresh_url" by simp
      ultimately show ?thesis by blast
    qed
  qed
qed (use assms in simp_all)


lemma api_sends:
  "\<exists>new. sent (snd (api srv config st)) = sent st @ request_interceptor st config # new
         \<and> (new = [] \<or> (\<exists>c2. url c2 = refresh_url \<and> new = [c2])
             \<or> (\<exists>c2 c3. url c2 = refresh_url \<and> retry c3 \<and> url c3 = url config
                   \<and> new = [c2, c3]))"
proof (cases "retry config \<or> refreshTokenRequest st")
  case True
  then show ?thesis using api_marked_sent api_while_renewing_sent by auto
next
  case False
  let ?c1 = "request_interceptor st config"
  let ?st1 = "st\<lparr>sent := sent st @ [?c1]\<rparr>"
  have idle: "\<not> refreshTokenRequest ?st1" using False by simp
  have rej: "\<exists>new. sent (snd (response_rejected srv (AxiosError ?c1 resp) ?st1))
                 = sent st @ ?c1 # new
         \<and> (new = [] \<or> (\<exists>c2. url c2 = refresh_url \<and> new = [c2])
             \<or> (\<exists>c2 c3. url c2 = refresh_url \<and> retry c3 \<and> url c3 = url config
                   \<and> new = [c2, c3]))" for resp
  proof -
    have u: "unmarked (AxiosError ?c1 resp)" using False by simp
    from response_rejected_sent[OF idle u, of srv] show ?thesis by auto
  qed
  show ?thesis
  proof (cases "srv (length (sent st)) ?c1")
    case (Reply code d)
    show ?thesis
    proof (cases "200 \<le> code \<and> code < 300")
      case True
      with Reply show ?thesis by (simp add: api.simps[of srv config st] Let_def)
    next
      case False
      with Reply rej[of "Some (code, d)"] show ?thesis
        by (simp add: api.simps[of srv config st] Let_def)
    qed
  next
    case NoReply
    with rej[of None] show ?thesis by (simp add: api.simps[of srv config st] Let_def)
  qed
qed

lemma api_bound:
  assumes "url config \<noteq> refresh_url"
  shows "\<exists>new. sent (snd (api srv config st)) = sent st @ new
           \<and> length (filter (\<lambda>r. url r = refresh_url) new) \<le> 1
           \<and> length (filter (\<lambda>r. url r \<noteq> refresh_url) new) \<le> 2"
proof -
  from api_sends[of srv config st] obtain new where
    s: "sent (snd (api srv config st)) = sent st @ request_interceptor st config # new"
    and n: "new = [] \<or> (\<exists>c2. url c2 = refresh_url \<and> new = [c2])
             \<or> (\<exists>c2 c3. url c2 = refresh_url \<and> retry c3 \<and> url c3 = url config
                   \<and> new = [c2, c3])"
    by blast
  from n assms
  have "length (filter (\<lambda>r. url r = refresh_url) (request_interceptor st config # new)) \<le> 1
      \<and> length (filter (\<lambda>r. url r \<noteq> refresh_url) (request_interceptor st config # new)) \<le> 2"
    by auto
  with s show ?thesis by blast
qed

lemma api_marked_reply:
  assumes "retry c" "request_interceptor s c = c" "srv (length (sent s)) c = Reply code d"
  shows "api srv c s =
     (if 200 \<le> code \<and> code < 300 then Fulfilled \<lparr>r_status = code, r_data = d, r_config = c\<rparr>
      else Rejected (AxiosError c (Some (code, d))),
      s\<lparr>sent := sent s @ [c]\<rparr>)"
  using assms by (simp add: api_marked)

lemma renewal_then_retry:
  assumes fresh: "\<not> retry config" "\<not> refreshTokenRequest st"
    and first: "srv (length (sent st)) (request_interceptor st config) = Reply 401 d1"
    and renew: "srv (length (sent st) + 1) (request_interceptor st refresh_request) = Reply code2 d2"
      "200 \<le> code2" "code2 < 300"
    and again: "srv (length (sent st) + 2)
        (config\<lparr>retry := True, authorization := Some (''Bearer '' @ token_text (d_token d2))\<rparr>)
        = Reply code3 d3"
  shows "api srv config st =
     (if 200 \<le> code3 \<and> code3 < 300
      then Fulfilled \<lparr>r_status = code3, r_data = d3,
             r_config = config\<lparr>retry := True,
               authorization := Some (''Bearer '' @ token_text (d_token d2))\<rparr>\<rparr>
      else Rejected (AxiosError
             (config\<lparr>retry := True, authorization := Some (''Bearer '' @ token_text (d_token d2))\<rparr>)
             (Some (code3, d3))),
      st\<lparr>localStorage_token := Some (token_text (d_token d2)),
         sent := sent st @ [request_interceptor st config, request_interceptor st refresh_request,
           config\<lparr>retry := True,
             authorization := Some (''Bearer '' @ token_text (d_token d2))\<rparr>]\<rparr>)"
proof -
  let ?c1 = "request_interceptor st config"
  let ?st1 = "st\<lparr>sent := sent st @ [?c1]\<rparr>"
  let ?c2 = "request_interceptor st refresh_request"
  let ?tok = "token_text (d_token d2)"
  let ?c3 = "config\<lparr>retry := True, authorization := Some (''Bearer '' @ ?tok)\<rparr>"
  have i1: "request_interceptor ?st1 c = request_interceptor st c" for c
    by (simp add: request_interceptor_def)
  have rt: "refreshToken srv ?st1 = (Fulfilled d2, ?st1\<lparr>sent := sent ?st1 @ [?c2]\<rparr>)"
    using fresh(2) renew by (simp add: refreshToken_idle i1)
  let ?st3 = "?st1\<lparr>sent := sent ?st1 @ [?c2], localStorage_token := Some ?tok\<rparr>"
  have c3: "?c1\<lparr>retry := True, authorization := Some (''Bearer '' @ ?tok)\<rparr> = ?c3"
    by (simp add: request_interceptor_def split: option.splits)
  have i3: "request_interceptor ?st3 ?c3 = ?c3"
    by (simp add: request_interceptor_def)
  have k3: "srv (length (sent ?st3)) ?c3 = Reply code3 d3"
    using again by simp
  have rr: "response_rejected srv (AxiosError ?c1 (Some (401, d1))) ?st1 = api srv ?c3 ?st3"
    using fresh(1) rt c3 by (simp add: response_rejected.simps)
  have a3: "api srv ?c3 ?st3 =
     (if 200 \<le> code3 \<and> code3 < 300
      then Fulfilled \<lparr>r_status = code3, r_data = d3, r_config = ?c3\<rparr>
      else Rejected (AxiosError ?c3 (Some (code3, d3))),
      ?st3\<lparr>sent := sent ?st3 @ [?c3]\<rparr>)"
  proof (rule api_marked_reply)
    show "retry ?c3" by simp
    show "request_interceptor ?st3 ?c3 = ?c3" by (rule i3)
    show "srv (length (sent ?st3)) ?c3 = Reply code3 d3" by (rule k3)
  qed
  have "api srv config st = response_rejected srv (AxiosError ?c1 (Some (401, d1))) ?st1"
    using first by (simp add: api.simps[of srv config st] Let_def)
  with rr a3 show ?thesis by simp
qed

lemma api_rejection_is_final:
  assumes "api srv config st = (Rejected e, st')"
  shows "response_status e \<noteq> Some 401 \<or> (\<exists>c resp. e = AxiosError c resp \<and> retry c)"
proof (cases "retry config")
  case True
  with assms show ?thesis
    by (auto simp: api_marked split: net_reply.splits if_splits)
next
  case unm: False
  show ?thesis
  proof (cases "refreshTokenRequest st")
    case True
    with assms unm show ?thesis
      by (auto simp: api_while_renewing split: net_reply.splits if_splits)
  next
    case False
    let ?c1 = "request_interceptor st config"
    let ?st1 = "st\<lparr>sent := sent st @ [?c1]\<rparr>"
    have idle: "\<not> refreshTokenRequest ?st1" using False by simp
    have rej: "response_status e \<noteq> Some 401 \<or> (\<exists>c resp. e = AxiosError c resp \<and> retry c)"
      if r: "response_rejected srv (AxiosError ?c1 resp) ?st1 = (Rejected e, st')" for resp
    proof (cases "response_status (AxiosError ?c1 resp) = Some 401")
      case False
      then have "response_rejected srv (AxiosError ?c1 resp) ?st1
                   = (Rejected (AxiosError ?c1 resp), ?st1)"
        by (simp add: response_rejected.simps del: response_status.simps)
      with r have "e = AxiosError ?c1 resp" by simp
      with False show ?thesis by blast
    next
      case True
      then obtain d where resp: "resp = Some (401, d)" by auto
      obtain out st2 where rt: "refreshToken srv ?st1 = (out, st2)"
        by (cases "refreshToken srv ?st1")
      show ?thesis
      proof (cases out)
        case (Fulfilled data)
        with r resp unm rt
        have "api srv (?c1\<lparr>retry := True,
                 authorization := Some (''Bearer '' @ token_text (d_token data))\<rparr>)
                (st2\<lparr>localStorage_token := Some (token_text (d_token data))\<rparr>) = (Rejected e, st')"
          by (simp add: response_rejected.simps)
        then show ?thesis
          by (auto simp: api_marked split: net_reply.splits if_splits)
      next
        case (Rejected refreshError)
        with r resp unm rt have e: "e = refreshError"
          by (simp add: response_rejected.simps)
        from rt Rejected idle have "response_status refreshError \<noteq> Some 401"
          by (auto simp: refreshToken_idle split: net_reply.splits if_splits)
        with e show ?thesis by simp
      next
        case Pending
        with r resp unm rt show ?thesis by (simp add: response_rejected.simps)
      qed
    qed
    from assms show ?thesis
      by (auto simp: api.simps[of srv config st] Let_def dest: rej split: net_reply.splits if_splits)
  qed
qed

lemma setup_passes_final_rejections:
  assumes "response_status e \<noteq> Some 401 \<or> (\<exists>c resp. e = AxiosError c resp \<and> retry c)"
  shows "setupResponseInterceptor_rejected onTokenRefresh onUnauthenticated srv e st
           = (Rejected e, st)"
  using assms by (auto simp: setupResponseInterceptor_rejected_def)


lemma setup_renews_once:
  assumes "\<not> retry c" and "onTokenRefresh st = (Fulfilled t, st')"
    and "srv (length (sent st'))
           (request_interceptor st' (c\<lparr>retry := True, authorization := Some (''Bearer '' @ t)\<rparr>))
         = Reply 401 d3"
  shows "setupResponseInterceptor_rejected onTokenRefresh onUnauthenticated srv
           (AxiosError c (Some (401, d))) st
         = (Rejected (AxiosError
              (request_interceptor st' (c\<lparr>retry := True, authorization := Some (''Bearer '' @ t)\<rparr>))
              (Some (401, d3))),
            st'\<lparr>sent := sent st' @
              [request_interceptor st' (c\<lparr>retry := True, authorization := Some (''Bearer '' @ t)\<rparr>)]\<rparr>)"
proof -
  let ?c3 = "c\<lparr>retry := True, authorization := Some (''Bearer '' @ t)\<rparr>"
  have "setupResponseInterceptor_rejected onTokenRefresh onUnauthenticated srv
          (AxiosError c (Some (401, d))) st = api srv ?c3 st'"
    using assms(1,2) by (simp add: setupResponseInterceptor_rejected_def)
  moreover have "retry ?c3" by simp
  ultimately show ?thesis using assms(3) by (simp add: api_marked)
qed

text \<open>
  C6. A request (other than the renewal request itself) causes at most one renewal request
  and is itself dispatched at most twice, whatever the server answers. When its first
  answer is 401, the renewal succeeds and the retried request is answered 401 again, the
  promise is rejected with that second 401: three requests have gone out (the original, the
  renewal, the one retry) and nothing more. The handler installed through
  \<^verbatim>\<open>setupResponseInterceptor\<close> behaves the same way: it passes on unchanged whatever the
  module's own interceptor has rejected and every error whose request carries the mark,
  and for an unmarked 401 it asks for one token, retries once, and rejects with the
  second 401.
\<close>

theorem at_most_one_renewal_and_retry:
  assumes "url config \<noteq> refresh_url"
  shows "(\<exists>new. sent (snd (api srv config st)) = sent st @ new
            \<and> length (filter (\<lambda>r. url r = refresh_url) new) \<le> 1
            \<and> length (filter (\<lambda>r. url r \<noteq> refresh_url) new) \<le> 2)
    \<and> (\<not> retry config \<and> \<not> refreshTokenRequest st
         \<and> srv (length (sent st)) (request_interceptor st config) = Reply 401 d1
         \<and> srv (length (sent st) + 1) (request_interceptor st refresh_request) = Reply code2 d2
         \<and> 200 \<le> code2 \<and> code2 < 300
         \<and> srv (length (sent st) + 2)
             (config\<lparr>retry := True,
                authorization := Some (''Bearer '' @ token_text (d_token d2))\<rparr>) = Reply 401 d3
        \<longrightarrow> api srv config st =
             (Rejected (AxiosError
                (config\<lparr>retry := True,
                   authorization := Some (''Bearer '' @ token_text (d_token d2))\<rparr>)
                (Some (401, d3))),
              st\<lparr>localStorage_token := Some (token_text (d_token d2)),
                 sent := sent st @ [request_interceptor st config,
                   request_interceptor st refresh_request,
                   config\<lparr>retry := True,
                     authorization := Some (''Bearer '' @ token_text (d_token d2))\<rparr>]\<rparr>))
    \<and> (api srv config st = (Rejected e, st') \<longrightarrow>
          setupResponseInterceptor_rejected onTokenRefresh onUnauthenticated srv e st'
            = (Rejected e, st'))
    \<and> (retry c \<longrightarrow>
          setupResponseInterceptor_rejected onTokenRefresh onUnauthenticated srv
            (AxiosError c resp) st = (Rejected (AxiosError c resp), st))
    \<and> (\<not> retry c \<and> onTokenRefresh st = (Fulfilled t, st'')
         \<and> srv (length (sent st''))
              (request_interceptor st'' (c\<lparr>retry := True, authorization := Some (''Bearer '' @ t)\<rparr>))
            = Reply 401 d3
        \<longrightarrow> setupResponseInterceptor_rejected onTokenRefresh onUnauthenticated srv
              (AxiosError c (Some (401, d1))) st
            = (Rejected (AxiosError
                 (request_interceptor st''
                    (c\<lparr>retry := True, authorization := Some (''Bearer '' @ t)\<rparr>))
                 (Some (401, d3))),
               st''\<lparr>sent := sent st'' @
                 [request_interceptor st''
                    (c\<lparr>retry := True, authorization := Some (''Bearer '' @ t)\<rparr>)]\<rparr>))"
proof (intro conjI impI)
  show "\<exists>new. sent (snd (api srv config st)) = sent st @ new
            \<and> length (filter (\<lambda>r. url r = refresh_url) new) \<le> 1
            \<and> length (filter (\<lambda>r. url r \<noteq> refresh_url) new) \<le> 2"
    by (rule api_bound[OF assms])
next
  assume h: "\<not> retry config \<and> \<not> refreshTokenRequest st
         \<and> srv (length (sent st)) (request_interceptor st config) = Reply 401 d1
         \<and> srv (length (sent st) + 1) (request_interceptor st refresh_request) = Reply code2 d2
         \<and> 200 \<le> code2 \<and> code2 < 300
         \<and> srv (length (sent st) + 2)
             (config\<lparr>retry := True,
                authorization := Some (''Bearer '' @ token_text (d_token d2))\<rparr>) = Reply 401 d3"
  then have "\<not> retry config" "\<not> refreshTokenRequest st"
    "srv (length (sent st)) (request_interceptor st config) = Reply 401 d1"
    "srv (length (sent st) + 1) (request_interceptor st refresh_request) = Reply code2 d2"
    "200 \<le> code2" "code2 < 300"
    "srv (length (sent st) + 2)
             (config\<lparr>retry := True,
                authorization := Some (''Bearer '' @ token_text (d_token d2))\<rparr>) = Reply 401 d3"
    by blast+
  from renewal_then_retry[OF this]
  show "api srv config st =
             (Rejected (AxiosError
                (config\<lparr>retry := True,
                   authorization := Some (''Bearer '' @ token_text (d_token d2))\<rparr>)
                (Some (401, d3))),
              st\<lparr>localStorage_token := Some (token_text (d_token d2)),
                 sent := sent st @ [request_interceptor st config,
                   request_interceptor st refresh_request,
                   config\<lparr>retry := True,
                     authorization := Some (''Bearer '' @ token_text (d_token d2))\<rparr>]\<rparr>)"
    by simp
next
  assume "api srv config st = (Rejected e, st')"
  from api_rejection_is_final[OF this]
  show "setupResponseInterceptor_rejected onTokenRefresh onUnauthenticated srv e st'
            = (Rejected e, st')"
    by (rule setup_passes_final_rejections)
next
  assume "retry c"
  then show "setupResponseInterceptor_rejected onTokenRefresh onUnauthenticated srv
            (AxiosError c resp) st = (Rejected (AxiosError c resp), st)"
    by (intro setup_passes_final_rejections) blast
next
  assume "\<not> retry c \<and> onTokenRefresh st = (Fulfilled t, st'')
         \<and> srv (length (sent st''))
              (request_interceptor st'' (c\<lparr>retry := True, authorization := Some (''Bearer '' @ t)\<rparr>))
            = Reply 401 d3"
  then show "setupResponseInterceptor_rejected onTokenRefresh onUnauthenticated srv
              (AxiosError c (Some (401, d1))) st
            = (Rejected (AxiosError
                 (request_interceptor st''
                    (c\<lparr>retry := True, authorization := Some (''Bearer '' @ t)\<rparr>))
                 (Some (401, d3))),
               st''\<lparr>sent := sent st'' @
                 [request_interceptor st''
                    (c\<lparr>retry := True, authorization := Some (''Bearer '' @ t)\<rparr>)]\<rparr>)"
    using setup_renews_once by blast
qed


theorem at_most_one_renewal_and_retry_witness:
  "url get_moods \<noteq> refresh_url \<and> \<not> retry get_moods \<and> \<not> refreshTokenRequest dashboard
   \<and> strict_server (length (sent dashboard)) (request_interceptor dashboard get_moods)
       = Reply 401 unauthorized
   \<and> strict_server (length (sent dashboard) + 1) (request_interceptor dashboard refresh_request)
       = Reply 200 renewed
   \<and> strict_server (length (sent dashboard) + 2)
        (get_moods\<lparr>retry := True,
           authorization := Some (''Bearer '' @ token_text (d_token renewed))\<rparr>)
       = Reply 401 unauthorized
   \<and> api strict_server get_moods dashboard
       = (Rejected (AxiosError
            (get_moods\<lparr>retry := True, authorization := Some ''Bearer t2''\<rparr>)
            (Some (401, unauthorized))),
          dashboard\<lparr>localStorage_token := Some ''t2'',
            sent := [get_moods\<lparr>authorization := Some ''Bearer t1''\<rparr>,
                     refresh_request\<lparr>authorization := Some ''Bearer t1''\<rparr>,
                     get_moods\<lparr>retry := True, authorization := Some ''Bearer t2''\<rparr>]\<rparr>)"
proof -
  have u: "url get_moods \<noteq> refresh_url"
    by (simp add: get_moods_def refresh_url_def)
  have h: "\<not> retry get_moods" "\<not> refreshTokenRequest dashboard"
    "strict_server (length (sent dashboard)) (request_interceptor dashboard get_moods)
       = Reply 401 unauthorized"
    "strict_server (length (sent dashboard) + 1) (request_interceptor dashboard refresh_request)
       = Reply 200 renewed"
    "strict_server (length (sent dashboard) + 2)
        (get_moods\<lparr>retry := True,
           authorization := Some (''Bearer '' @ token_text (d_token renewed))\<rparr>)
       = Reply 401 unauthorized"
    by (simp_all add: get_moods_def dashboard_def strict_server_def refresh_url_def
        refresh_request_def request_interceptor_def)
  have v: "token_text (d_token renewed) = ''t2''" "sent dashboard = []"
    "request_interceptor dashboard get_moods = get_moods\<lparr>authorization := Some ''Bearer t1''\<rparr>"
    "request_interceptor dashboard refresh_request
       = refresh_request\<lparr>authorization := Some ''Bearer t1''\<rparr>"
    by (simp_all add: renewed_def token_text_def dashboard_def request_interceptor_def)
  from at_most_one_renewal_and_retry[OF u, where srv = strict_server and st = dashboard
      and ?d1.0 = unauthorized and ?code2.0 = 200 and ?d2.0 = renewed
      and ?d3.0 = unauthorized] h
  have "api strict_server get_moods dashboard
       = (Rejected (AxiosError
            (get_moods\<lparr>retry := True,
               authorization := Some (''Bearer '' @ token_text (d_token renewed))\<rparr>)
            (Some (401, unauthorized))),
          dashboard\<lparr>localStorage_token := Some (token_text (d_token renewed)),
            sent := sent dashboard @ [request_interceptor dashboard get_moods,
                     request_interceptor dashboard refresh_request,
                     get_moods\<lparr>retry := True,
                       authorization := Some (''Bearer '' @ token_text (d_token renewed))\<rparr>]\<rparr>)"
    by simp
  with u h v show ?thesis by simp
qed

section \<open>One renewal for many callers\<close>

text \<open>While a renewal is in flight, every further caller only joins the suspended calls.\<close>

lemma enter_while_pending:
  assumes "slot st = Some p"
  shows "fold step (map Call cs) st = st\<lparr>awaiting := awaiting st @ map (\<lambda>c. (c, p)) cs\<rparr>"
  using assms
proof (induction cs arbitrary: st)
  case Nil
  then show ?case by simp
next
  case (Cons c cs)
  have "slot (refreshToken_enter c st) = Some p"
    using Cons.prems by (simp add: refreshToken_enter_def)
  from Cons.IH[OF this] Cons.prems show ?case
    by (simp add: refreshToken_enter_def)
qed

lemma resume_all:
  "fold (refreshToken_resume r) cs st =
     (if cs = [] then st
      else st\<lparr>returned := returned st @
                 map (\<lambda>c. (c, case r of Inl error \<Rightarrow> Inl (handleApiError error)
                                 | Inr tokenData \<Rightarrow> Inr (r_data tokenData))) cs,
              slot := None\<rparr>)"
proof (induction cs arbitrary: st)
  case Nil
  then show ?case by simp
next
  case (Cons c cs)
  have "fold (refreshToken_resume r) (c # cs) st
          = fold (refreshToken_resume r) cs (refreshToken_resume r c st)"
    by simp
  also have "\<dots> = (if cs = [] then refreshToken_resume r c st
      else (refreshToken_resume r c st)\<lparr>returned := returned (refreshToken_resume r c st) @
                 map (\<lambda>c. (c, case r of Inl error \<Rightarrow> Inl (handleApiError error)
                                 | Inr tokenData \<Rightarrow> Inr (r_data tokenData))) cs,
              slot := None\<rparr>)"
    by (rule Cons.IH)
  also have "\<dots> = st\<lparr>returned := returned st @
                 map (\<lambda>c. (c, case r of Inl error \<Rightarrow> Inl (handleApiError error)
                                 | Inr tokenData \<Rightarrow> Inr (r_data tokenData))) (c # cs),
              slot := None\<rparr>"
    by (simp add: refreshToken_resume_def)
  finally show ?case by simp
qed

lemma calls_then_settle:
  assumes "slot st = None" "awaiting st = []" "cs \<noteq> []"
  shows "run (map Call cs) st
           = st\<lparr>slot := Some (posted st), posted := posted st + 1,
                awaiting := map (\<lambda>c. (c, posted st)) cs\<rparr>"
    and "run (map Call cs @ [Settle (posted st) r]) st
           = st\<lparr>slot := None, posted := posted st + 1, awaiting := [],
                returned := returned st @
                  map (\<lambda>c. (c, case r of Inl error \<Rightarrow> Inl (handleApiError error)
                                  | Inr tokenData \<Rightarrow> Inr (r_data tokenData))) cs\<rparr>"
proof -
  from assms(3) obtain c cs' where cs: "cs = c # cs'" by (cases cs) auto
  let ?st1 = "refreshToken_enter c st"
  have s1: "?st1 = st\<lparr>slot := Some (posted st), posted := posted st + 1,
                awaiting := [(c, posted st)]\<rparr>"
    using assms(1,2) by (simp add: refreshToken_enter_def)
  then have "slot ?st1 = Some (posted st)" by simp
  from enter_while_pending[OF this, of cs'] s1
  show a: "run (map Call cs) st
           = st\<lparr>slot := Some (posted st), posted := posted st + 1,
                awaiting := map (\<lambda>c. (c, posted st)) cs\<rparr>"
    by (simp add: run_def cs)
  have f: "filter (\<lambda>w. snd w = posted st) (map (\<lambda>c. (c, posted st)) cs) = map (\<lambda>c. (c, posted st)) cs"
    "filter (\<lambda>w. snd w \<noteq> posted st) (map (\<lambda>c. (c, posted st)) cs) = []"
    by (induction cs) auto
  have "run (map Call cs @ [Settle (posted st) r]) st
          = step (Settle (posted st) r) (run (map Call cs) st)"
    by (simp add: run_def)
  then show "run (map Call cs @ [Settle (posted st) r]) st
           = st\<lparr>slot := None, posted := posted st + 1, awaiting := [],
                returned := returned st @
                  map (\<lambda>c. (c, case r of Inl error \<Rightarrow> Inl (handleApiError error)
                                  | Inr tokenData \<Rightarrow> Inr (r_data tokenData))) cs\<rparr>"
    using assms(3) by (simp add: a f resume_all comp_def)
qed


text \<open>
  C5. Take a page on which no renewal is under way, and let any number of callers (at least
  one) find their requests answered 401 and call \<^verbatim>\<open>refreshToken\<close> before the renewal
  settles. Then one renewal request has been issued, by the first caller, and every caller
  is suspended on the promise of exactly that request. When the promise settles, with a
  response or with an error, the number of renewal requests is still one, every caller has
  returned the same data (or thrown the same error), no call is left suspended and
  \<^verbatim>\<open>refreshTokenRequest\<close> is empty again.
\<close>

theorem single_flight_renewal:
  assumes "slot st = None" and "awaiting st = []" and "cs \<noteq> []"
  shows "posted (run (map Call cs) st) = posted st + 1
    \<and> slot (run (map Call cs) st) = Some (posted st)
    \<and> awaiting (run (map Call cs) st) = map (\<lambda>c. (c, posted st)) cs
    \<and> posted (run (map Call cs @ [Settle (posted st) r]) st) = posted st + 1
    \<and> returned (run (map Call cs @ [Settle (posted st) r]) st)
        = returned st @
            map (\<lambda>c. (c, case r of Inl error \<Rightarrow> Inl (handleApiError error)
                            | Inr tokenData \<Rightarrow> Inr (r_data tokenData))) cs
    \<and> awaiting (run (map Call cs @ [Settle (posted st) r]) st) = []
    \<and> slot (run (map Call cs @ [Settle (posted st) r]) st) = None"
  by (simp add: calls_then_settle[OF assms])

theorem single_flight_renewal_witness:
  "slot idle = None \<and> awaiting idle = [] \<and> [1, 2, 3] \<noteq> ([] :: nat list)
   \<and> posted (run (map Call [1, 2, 3]) idle) = 1
   \<and> awaiting (run (map Call [1, 2, 3]) idle) = [(1, 0), (2, 0), (3, 0)]
   \<and> posted (run (map Call [1, 2, 3]
        @ [Settle 0 (Inr \<lparr>r_status = 200, r_data = renewed, r_config = refresh_request\<rparr>)]) idle) = 1
   \<and> returned (run (map Call [1, 2, 3]
        @ [Settle 0 (Inr \<lparr>r_status = 200, r_data = renewed, r_config = refresh_request\<rparr>)]) idle)
       = [(1, Inr renewed), (2, Inr renewed), (3, Inr renewed)]"
proof -
  have i: "slot idle = None" "awaiting idle = []" "posted idle = 0" "returned idle = []"
    by (simp_all add: idle_def)
  have n: "[1, 2, 3] \<noteq> ([] :: nat list)" by simp
  from single_flight_renewal[OF i(1,2) n,
      of "Inr \<lparr>r_status = 200, r_data = renewed, r_config = refresh_request\<rparr>"] i
  show ?thesis by simp
qed

text \<open>
  A caller that comes after the renewal has settled finds \<^verbatim>\<open>refreshTokenRequest\<close> empty
  and issues a renewal request of its own.
\<close>

lemma late_caller_renews_again:
  assumes "slot st = None" and "awaiting st = []" and "cs \<noteq> []"
  shows "posted (run (map Call cs @ [Settle (posted st) r, Call c]) st) = posted st + 2"
proof -
  have "run (map Call cs @ [Settle (posted st) r, Call c]) st
          = refreshToken_enter c (run (map Call cs @ [Settle (posted st) r]) st)"
    by (simp add: run_def)
  then show ?thesis
    by (simp add: calls_then_settle(2)[OF assms] refreshToken_enter_def)
qed


end
